theory Spec2Isabelle
  imports Complex_Main "HOL-Library.Word"
begin

section \<open>License verifier (package licverifier, verifier.go)\<close>

text \<open>
  The package verifies a signed license token with the libraries \<^verbatim>\<open>encoding/pem\<close>,
  \<^verbatim>\<open>crypto/x509\<close>, \<^verbatim>\<open>jwx/jwk\<close> and \<^verbatim>\<open>jwx/jwt\<close> and copies the
  claims of the verified token into a \<^verbatim>\<open>LicenseInfo\<close>. The functions of
  \<^verbatim>\<open>verifier.go\<close> are embedded one by one, under their own names. A Go function that
  returns a pointer and an error is a sum (\<open>Inl\<close> the error, the pointer being nil);
  a Go function that returns a struct value and an error is a pair, since the struct
  is returned whatever the error is. The library functions the code calls are the
  fields of the record \<open>deps\<close>: every theorem about the code holds for whatever
  they return.
\<close>

subsection \<open>Values of the libraries\<close>

text \<open>A \<^verbatim>\<open>[]byte\<close> is a \<open>string\<close>: a list of 8-bit characters.\<close>

type_synonym bytes = string

text \<open>The message of an error made by a library, which the code never inspects.\<close>

type_synonym lib_error = string

text \<open>\<^verbatim>\<open>pem.Block\<close>: the code reads \<^verbatim>\<open>Bytes\<close> only.\<close>

record pem_Block =
  block_Type :: string
  block_Bytes :: bytes

datatype curve = P224 | P256 | P384 | P521

record ecdsa_PublicKey =
  ec_Curve :: curve
  ec_X :: int
  ec_Y :: int

record rsa_PublicKey =
  rsa_N :: int
  rsa_E :: int

text \<open>
  The dynamic type of the \<^verbatim>\<open>interface{}\<close> that \<^verbatim>\<open>x509.ParsePKIXPublicKey\<close> returns
  and that \<^verbatim>\<open>Certificate.PublicKey\<close> holds: one of the key types of the standard
  library, or nothing the library knows (\<open>UnknownKey\<close>, a nil interface).
\<close>

datatype public_key =
    ECDSAKey ecdsa_PublicKey
  | RSAKey rsa_PublicKey
  | Ed25519Key bytes
  | DSAKey int
  | UnknownKey

record x509_Certificate =
  cert_PublicKey :: public_key
  cert_Subject :: string

text \<open>\<^verbatim>\<open>jwa.SignatureAlgorithm\<close>.\<close>

datatype jwa_SignatureAlgorithm =
    ES256 | ES384 | ES512 | RS256 | RS384 | RS512 | PS256 | PS384 | PS512
  | HS256 | HS384 | HS512 | EdDSA | NoSignature

text \<open>
  \<^verbatim>\<open>jwk.Key\<close>: the raw key and the attributes the code sets or the verification
  reads. \<^verbatim>\<open>key.Set(jwk.AlgorithmKey, alg)\<close> stores the algorithm attribute over
  whatever the key held; the code discards the error that \<^verbatim>\<open>Set\<close> returns, and
  for this attribute and a \<^verbatim>\<open>jwa.SignatureAlgorithm\<close> there is none.
  \<^verbatim>\<open>jwk.Set\<close> is the list of the keys added, without repetition.
\<close>

record jwk_Key =
  key_Raw :: ecdsa_PublicKey
  key_Algorithm :: "jwa_SignatureAlgorithm option"
  key_KeyID :: "string option"

type_synonym jwk_Set = "jwk_Key list"

definition key_Set_AlgorithmKey :: "jwk_Key \<Rightarrow> jwa_SignatureAlgorithm \<Rightarrow> jwk_Key" where
  "key_Set_AlgorithmKey k a = k\<lparr>key_Algorithm := Some a\<rparr>"

definition jwk_NewSet :: jwk_Set where
  "jwk_NewSet = []"

definition keyset_Add :: "jwk_Set \<Rightarrow> jwk_Key \<Rightarrow> jwk_Set" where
  "keyset_Add ks k = (if k \<in> set ks then ks else ks @ [k])"

text \<open>
  \<^verbatim>\<open>time.Time\<close>: the zero value, or an instant in seconds since the Unix epoch.
\<close>

datatype time_Time = TimeZero | TimeUnix int

text \<open>
  The dynamic type of a claim value in the map of \<^verbatim>\<open>token.AsMap\<close>. A JSON number is
  decoded into a \<^verbatim>\<open>float64\<close>; JSON has no NaN and no infinity, so the value is finite
  and is kept as the real number it denotes. Not every real is the value of a
  \<^verbatim>\<open>float64\<close>: those that are satisfy \<open>is_float64\<close> below, and a property that
  depends on the value being a \<^verbatim>\<open>float64\<close> assumes it.
\<close>

datatype claim_value =
    VString string
  | VFloat64 real
  | VBool bool
  | VTime time_Time
  | VNil
  | VArray "claim_value list"
  | VObject "(string \<times> claim_value) list"

type_synonym claims = "string \<Rightarrow> claim_value option"

text \<open>
  \<^verbatim>\<open>jwt.Token\<close> is an interface; the code calls \<^verbatim>\<open>AsMap\<close>, \<^verbatim>\<open>Subject\<close> and
  \<^verbatim>\<open>Expiration\<close> on it, and the record holds what each returns, and what
  \<^verbatim>\<open>NotBefore\<close> returns, which the validation of the library reads.
\<close>

record jwt_Token =
  token_AsMap :: "lib_error + claims"
  token_Subject :: string
  token_Expiration :: time_Time
  token_NotBefore :: time_Time

text \<open>
  The errors of \<^verbatim>\<open>jwt.ParseString\<close>, by the kinds the specification names
  (section 7), with one for a string that is no token, one for a key set without a
  usable key and one for a predicate of the caller. The options it takes: the first
  three are those \<^verbatim>\<open>Verify\<close> appends; the two others are the options of a caller
  that the specification names (section 9), a switch that disables the expiry check
  and an additional predicate on the token, which returns a message to reject.
\<close>

datatype jwt_error =
    MalformedToken
  | NoKeyInSet
  | SignatureAlgorithmMismatch
  | InvalidSignature
  | Expired
  | NotYetValid
  | PredicateFailed string

datatype jwt_ParseOption =
    WithKeySet jwk_Set
  | UseDefaultKey bool
  | WithValidate bool
  | SkipExpiryCheck bool
  | AdditionalPredicate "jwt_Token \<Rightarrow> string option"

subsection \<open>Errors of the package\<close>

text \<open>
  One constructor for each error the package makes or passes on:
  \<^item> \<open>KeyFormatError\<close>: \<^verbatim>\<open>errors.New("key must be a PEM encoded PKCS1 or PKCS8 key")\<close>;
  \<^item> \<open>X509Error e\<close>: the error \<open>e\<close> of \<^verbatim>\<open>x509.ParseCertificate\<close>, returned as it is;
  \<^item> \<open>KeyTypeError\<close>: \<^verbatim>\<open>errors.New("key is not a valid RSA public key")\<close>;
  \<^item> \<open>ParsePublicKeyFailed e\<close>: \<^verbatim>\<open>fmt.Errorf("Failed to parse public key: %s", e)\<close>;
  \<^item> \<open>JwkError e\<close>: the error \<open>e\<close> of \<^verbatim>\<open>jwk.New\<close>, returned as it is;
  \<^item> \<open>AsMapError e\<close>: the error \<open>e\<close> of \<^verbatim>\<open>token.AsMap\<close>, returned as it is;
  \<^item> \<open>InvalidClaim f\<close>: \<^verbatim>\<open>errors.New("Invalid f in claims")\<close>;
  \<^item> \<open>VerificationError e\<close>: \<^verbatim>\<open>fmt.Errorf("failed to verify license: %s", e)\<close>;
  \<^item> \<open>DeploymentMismatch\<close>:
    \<^verbatim>\<open>errors.New("Invalid license - deployment ID doesn't match")\<close>.
\<close>

datatype error =
    KeyFormatError
  | X509Error lib_error
  | KeyTypeError
  | ParsePublicKeyFailed error
  | JwkError lib_error
  | AsMapError lib_error
  | InvalidClaim string
  | VerificationError jwt_error
  | DeploymentMismatch

subsection \<open>The library functions the code calls\<close>

text \<open>
  \<open>float64_to_int64_overflow\<close> is the result of the conversion \<^verbatim>\<open>int64(f)\<close> when
  the truncated \<open>f\<close> is not an \<^verbatim>\<open>int64\<close>, which Go leaves to the implementation.
\<close>

record deps =
  pem_Decode :: "bytes \<Rightarrow> pem_Block option"
  x509_ParsePKIXPublicKey :: "bytes \<Rightarrow> lib_error + public_key"
  x509_ParseCertificate :: "bytes \<Rightarrow> lib_error + x509_Certificate"
  jwk_New :: "ecdsa_PublicKey \<Rightarrow> lib_error + jwk_Key"
  jwt_ParseString :: "string \<Rightarrow> jwt_ParseOption list \<Rightarrow> jwt_error + jwt_Token"
  env_Get :: "string \<Rightarrow> string \<Rightarrow> string"
  float64_to_int64_overflow :: "real \<Rightarrow> 64 word"

subsection \<open>The verifier and its result\<close>

record LicenseVerifier =
  keySet :: jwk_Set

record LicenseInfo =
  Email :: string
  Organization :: string
  AccountID :: "64 word"
  DeploymentID :: string
  StorageCapacity :: "64 word"
  Plan :: string
  ExpiresAt :: time_Time

text \<open>\<^verbatim>\<open>LicenseInfo{}\<close>, the zero value.\<close>

definition LicenseInfo_zero :: LicenseInfo where
  "LicenseInfo_zero =
     \<lparr>Email = [], Organization = [], AccountID = 0, DeploymentID = [],
      StorageCapacity = 0, Plan = [], ExpiresAt = TimeZero\<rparr>"

text \<open>The names of the claims.\<close>

definition accountID :: string where "accountID = ''aid''"
definition deploymentID :: string where "deploymentID = ''did''"
definition organization :: string where "organization = ''org''"
definition capacity :: string where "capacity = ''cap''"
definition plan :: string where "plan = ''plan''"

subsection \<open>parseECPublicKeyFromPEM\<close>

text \<open>The type assertion \<^verbatim>\<open>parsedKey.(*ecdsa.PublicKey)\<close>.\<close>

fun as_ecdsa_PublicKey :: "public_key \<Rightarrow> ecdsa_PublicKey option" where
  "as_ecdsa_PublicKey (ECDSAKey k) = Some k"
| "as_ecdsa_PublicKey _ = None"

definition parseECPublicKeyFromPEM :: "deps \<Rightarrow> bytes \<Rightarrow> error + ecdsa_PublicKey" where
  "parseECPublicKeyFromPEM d key =
     (case pem_Decode d key of
        None \<Rightarrow> Inl KeyFormatError
      | Some block \<Rightarrow>
          (case (case x509_ParsePKIXPublicKey d (block_Bytes block) of
                   Inr k \<Rightarrow> Inr k
                 | Inl _ \<Rightarrow>
                     (case x509_ParseCertificate d (block_Bytes block) of
                        Inr cert \<Rightarrow> Inr (cert_PublicKey cert)
                      | Inl err \<Rightarrow> Inl (X509Error err))) of
             Inl e \<Rightarrow> Inl e
           | Inr parsedKey \<Rightarrow>
               (case as_ecdsa_PublicKey parsedKey of
                  None \<Rightarrow> Inl KeyTypeError
                | Some pkey \<Rightarrow> Inr pkey)))"

subsection \<open>NewLicenseVerifier\<close>

definition NewLicenseVerifier :: "deps \<Rightarrow> bytes \<Rightarrow> error + LicenseVerifier" where
  "NewLicenseVerifier d pemBytes =
     (case parseECPublicKeyFromPEM d pemBytes of
        Inl err \<Rightarrow> Inl (ParsePublicKeyFailed err)
      | Inr pbKey \<Rightarrow>
          (case jwk_New d pbKey of
             Inl err \<Rightarrow> Inl (JwkError err)
           | Inr key \<Rightarrow>
               Inr \<lparr>keySet = keyset_Add jwk_NewSet (key_Set_AlgorithmKey key ES384)\<rparr>))"

subsection \<open>toLicenseInfo\<close>

text \<open>
  The type assertions \<^verbatim>\<open>claims[k].(float64)\<close> and \<^verbatim>\<open>claims[k].(string)\<close> in their
  two-result form: the value and \<^verbatim>\<open>ok\<close>. A key that is not in the map reads as a nil
  interface, on which every assertion fails; a failed assertion gives the zero value.
\<close>

fun as_float64 :: "claim_value option \<Rightarrow> real \<times> bool" where
  "as_float64 (Some (VFloat64 x)) = (x, True)"
| "as_float64 _ = (0, False)"

fun as_string :: "claim_value option \<Rightarrow> string \<times> bool" where
  "as_string (Some (VString s)) = (s, True)"
| "as_string _ = ([], False)"

text \<open>
  The conversion \<^verbatim>\<open>int64(f)\<close> of a \<^verbatim>\<open>float64\<close>: the fraction is discarded
  (truncation towards zero); when the result is not an \<^verbatim>\<open>int64\<close> the value is the
  implementation's.
\<close>

definition trunc_toward_zero :: "real \<Rightarrow> int" where
  "trunc_toward_zero x = (if 0 \<le> x then \<lfloor>x\<rfloor> else \<lceil>x\<rceil>)"

definition int64_of_float64 :: "deps \<Rightarrow> real \<Rightarrow> 64 word" where
  "int64_of_float64 d x =
     (if - (2 ^ 63) \<le> trunc_toward_zero x \<and> trunc_toward_zero x < 2 ^ 63
      then word_of_int (trunc_toward_zero x)
      else float64_to_int64_overflow d x)"

definition toLicenseInfo :: "deps \<Rightarrow> jwt_Token \<Rightarrow> LicenseInfo \<times> error option" where
  "toLicenseInfo d token =
     (case token_AsMap token of
        Inl err \<Rightarrow> (LicenseInfo_zero, Some (AsMapError err))
      | Inr claims \<Rightarrow>
          (let (accID, ok) = as_float64 (claims accountID) in
           if \<not> ok \<or> ok \<and> accID < 0
           then (LicenseInfo_zero, Some (InvalidClaim ''accountId''))
           else
             let (depUUID, _) = as_string (claims deploymentID);
                 (orgName, ok) = as_string (claims organization) in
             if \<not> ok then (LicenseInfo_zero, Some (InvalidClaim ''organization''))
             else
               let (storageCap, ok) = as_float64 (claims capacity) in
               if \<not> ok then (LicenseInfo_zero, Some (InvalidClaim ''storage capacity''))
               else
                 let (plan', ok) = as_string (claims plan) in
                 if \<not> ok then (LicenseInfo_zero, Some (InvalidClaim ''plan''))
                 else
                   (\<lparr>Email = token_Subject token,
                     Organization = orgName,
                     AccountID = int64_of_float64 d accID,
                     DeploymentID = depUUID,
                     StorageCapacity = int64_of_float64 d storageCap,
                     Plan = plan',
                     ExpiresAt = token_Expiration token\<rparr>, None)))"

subsection \<open>Verify\<close>

definition Verify ::
  "deps \<Rightarrow> LicenseVerifier \<Rightarrow> string \<Rightarrow> jwt_ParseOption list \<Rightarrow> LicenseInfo \<times> error option"
where
  "Verify d lv license options =
     (let options = options @ [WithKeySet (keySet lv), UseDefaultKey True, WithValidate True] in
      case jwt_ParseString d license options of
        Inl err \<Rightarrow> (LicenseInfo_zero, Some (VerificationError err))
      | Inr token \<Rightarrow> toLicenseInfo d token)"

subsection \<open>VerifyClusterLicense\<close>

text \<open>The two embedded public keys: the one of development mode and the other one.\<close>

definition pemBytes_dev :: bytes where
  "pemBytes_dev =
     ''-----BEGIN PUBLIC KEY-----'' @ [CHR 0x0A] @
     ''MHYwEAYHKoZIzj0CAQYFK4EEACIDYgAEbo+e1wpBY4tBq9AONKww3Kq7m6QP/TBQ'' @ [CHR 0x0A] @
     ''mr/cKCUyBL7rcAvg0zNq1vcSrUSGlAmY3SEDCu3GOKnjG/U4E7+p957ocWSV+mQU'' @ [CHR 0x0A] @
     ''9NKlTdQFGF3+aO6jbQ4hX/S5qPyF+a3z'' @ [CHR 0x0A] @
     ''-----END PUBLIC KEY-----''"

definition pemBytes_prod :: bytes where
  "pemBytes_prod =
     ''-----BEGIN PUBLIC KEY-----'' @ [CHR 0x0A] @
     ''MHYwEAYHKoZIzj0CAQYFK4EEACIDYgAEaK31xujr6/rZ7ZfXZh3SlwovjC+X8wGq'' @ [CHR 0x0A] @
     ''qkltaKyTLRENd4w3IRktYYCRgzpDLPn/nrf7snV/ERO5qcI7fkEES34IVEr+2Uff'' @ [CHR 0x0A] @
     ''JkO2PfyyAYEO/5dBlPh1Undu9WQl6J7B'' @ [CHR 0x0A] @
     ''-----END PUBLIC KEY-----''"

text \<open>The key that \<^verbatim>\<open>VerifyClusterLicense\<close> chooses from the environment.\<close>

definition pemBytes :: "deps \<Rightarrow> bytes" where
  "pemBytes d =
     (let devMode = (env_Get d ''MINIO_CI_CD'' [] \<noteq> []) in
      if devMode then pemBytes_dev else pemBytes_prod)"

definition VerifyClusterLicense ::
  "deps \<Rightarrow> string \<Rightarrow> string \<Rightarrow> jwt_ParseOption list \<Rightarrow> error option"
where
  "VerifyClusterLicense d lic depID options =
     (case NewLicenseVerifier d (pemBytes d) of
        Inl e \<Rightarrow> Some e
      | Inr lv \<Rightarrow>
          (case Verify d lv lic options of
             (licInfo, Some e) \<Rightarrow> Some e
           | (licInfo, None) \<Rightarrow>
               if DeploymentID licInfo \<noteq> depID then Some DeploymentMismatch else None))"

subsection \<open>The key set as an object shared with the library\<close>

text \<open>
  A \<^verbatim>\<open>jwk.Set\<close> is an interface value: \<open>Verify\<close> hands the key set of the verifier
  itself to \<^verbatim>\<open>jwt.WithKeySet\<close>, so that what the verifier holds after a call is what
  the library has left there. The code assigns \<^verbatim>\<open>lv.keySet\<close> in
  \<open>NewLicenseVerifier\<close> and nowhere else. \<open>Verify_st\<close> is \<open>Verify\<close> with the state
  passed on: the result of the call and the verifier after it. Its second argument
  is the effect of \<^verbatim>\<open>jwt.ParseString\<close> on a key set it is handed: \<open>w s options ks\<close>
  is what the set that held \<open>ks\<close> holds after the call on the string \<open>s\<close> with
  \<open>options\<close>. \<open>Verify_calls\<close> is the verifier after a sequence of calls of
  \<open>Verify\<close>, each with its license and its options.
\<close>

type_synonym keySet_effect = "string \<Rightarrow> jwt_ParseOption list \<Rightarrow> jwk_Set \<Rightarrow> jwk_Set"

definition Verify_st ::
  "deps \<Rightarrow> keySet_effect \<Rightarrow> LicenseVerifier \<Rightarrow> string \<Rightarrow> jwt_ParseOption list \<Rightarrow>
     (LicenseInfo \<times> error option) \<times> LicenseVerifier"
where
  "Verify_st d w lv license options =
     (let options' = options @ [WithKeySet (keySet lv), UseDefaultKey True, WithValidate True] in
      (Verify d lv license options, lv\<lparr>keySet := w license options' (keySet lv)\<rparr>))"

fun Verify_calls ::
  "deps \<Rightarrow> keySet_effect \<Rightarrow> LicenseVerifier \<Rightarrow> (string \<times> jwt_ParseOption list) list \<Rightarrow>
     LicenseVerifier"
where
  "Verify_calls d w lv [] = lv"
| "Verify_calls d w lv ((license, options) # calls) =
     Verify_calls d w (snd (Verify_st d w lv license options)) calls"

subsection \<open>The values of a float64\<close>

text \<open>
  The finite values of a \<^verbatim>\<open>float64\<close>: a significand of at most 53 bits times a power
  of two between \<open>2 ^ 971\<close> and \<open>1 / 2 ^ 1074\<close>.
\<close>

definition is_float64 :: "real \<Rightarrow> bool" where
  "is_float64 x \<longleftrightarrow>
     (\<exists>(m::int) (k::nat). \<bar>m\<bar> < 2 ^ 53 \<and>
        (k \<le> 971 \<and> x = real_of_int m * 2 ^ k \<or> k \<le> 1074 \<and> x = real_of_int m / 2 ^ k))"

subsection \<open>The token verifier of the library\<close>

text \<open>
  Modelled from the spec: the compact token of section 4.3 in decoded form, with the
  algorithm of its header, the bytes that are signed, the signature and the payload.
  The decoding of base64url and JSON, the signature primitive and the clock are the
  fields of \<open>jwt_prims\<close>, the current time in seconds since the Unix epoch.
\<close>

record jws_Message =
  jws_Algorithm :: jwa_SignatureAlgorithm
  jws_SigningInput :: bytes
  jws_Signature :: bytes
  jws_Payload :: jwt_Token

record jwt_prims =
  decode_compact :: "string \<Rightarrow> jws_Message option"
  ecdsa_Verify :: "ecdsa_PublicKey \<Rightarrow> jwa_SignatureAlgorithm \<Rightarrow> bytes \<Rightarrow> bytes \<Rightarrow> bool"
  time_Now :: int

text \<open>
  Modelled from the spec: what a list of options sets. The options are read in order,
  so that for each kind the last one given stands (the second argument is the value
  so far), and the predicates are applied in the order given, up to the first that
  rejects. The time comparisons are those of section 4.3: at or after the expiration,
  before the not-before time; an absent time never rejects.
\<close>

fun option_KeySet :: "jwt_ParseOption list \<Rightarrow> jwk_Set \<Rightarrow> jwk_Set" where
  "option_KeySet [] acc = acc"
| "option_KeySet (WithKeySet ks # os) acc = option_KeySet os ks"
| "option_KeySet (_ # os) acc = option_KeySet os acc"

fun option_Validate :: "jwt_ParseOption list \<Rightarrow> bool \<Rightarrow> bool" where
  "option_Validate [] acc = acc"
| "option_Validate (WithValidate b # os) acc = option_Validate os b"
| "option_Validate (_ # os) acc = option_Validate os acc"

fun option_SkipExpiryCheck :: "jwt_ParseOption list \<Rightarrow> bool \<Rightarrow> bool" where
  "option_SkipExpiryCheck [] acc = acc"
| "option_SkipExpiryCheck (SkipExpiryCheck b # os) acc = option_SkipExpiryCheck os b"
| "option_SkipExpiryCheck (_ # os) acc = option_SkipExpiryCheck os acc"

fun option_Predicates :: "jwt_ParseOption list \<Rightarrow> (jwt_Token \<Rightarrow> string option) list" where
  "option_Predicates [] = []"
| "option_Predicates (AdditionalPredicate p # os) = p # option_Predicates os"
| "option_Predicates (_ # os) = option_Predicates os"

fun apply_Predicates :: "(jwt_Token \<Rightarrow> string option) list \<Rightarrow> jwt_Token \<Rightarrow> string option" where
  "apply_Predicates [] t = None"
| "apply_Predicates (p # ps) t =
     (case p t of Some msg \<Rightarrow> Some msg | None \<Rightarrow> apply_Predicates ps t)"

fun time_at_or_after :: "int \<Rightarrow> time_Time \<Rightarrow> bool" where
  "time_at_or_after now TimeZero = False"
| "time_at_or_after now (TimeUnix t) = (t \<le> now)"

fun time_before :: "int \<Rightarrow> time_Time \<Rightarrow> bool" where
  "time_before now TimeZero = False"
| "time_before now (TimeUnix t) = (now < t)"

text \<open>
  Modelled from the spec: \<^verbatim>\<open>jwt.ParseString\<close> of the library jwx, whose source is not
  part of the package. Section 4.3 of the specification: the string is parsed as a
  compact signed token; the algorithm of its header must be the one bound to the key
  of the key set (\<open>SignatureAlgorithmMismatch\<close>) and the signature must verify
  (\<open>InvalidSignature\<close>); then, when validation is on, the token is rejected if the
  current time is at or after the expiration claim (\<open>Expired\<close>, unless a caller's option
  disables the expiry check) or before the not-before claim, when present
  (\<open>NotYetValid\<close>); then the caller's predicates are applied. An absent time claim is
  \<open>TimeZero\<close>. The specification describes a key set of one key; any other key set has
  no key to verify with.
\<close>

definition jwt_ParseString_spec ::
  "jwt_prims \<Rightarrow> string \<Rightarrow> jwt_ParseOption list \<Rightarrow> jwt_error + jwt_Token"
where
  "jwt_ParseString_spec p s options =
     (case decode_compact p s of
        None \<Rightarrow> Inl MalformedToken
      | Some m \<Rightarrow>
          (case option_KeySet options [] of
             [k] \<Rightarrow>
               if key_Algorithm k \<noteq> Some (jws_Algorithm m) then Inl SignatureAlgorithmMismatch
               else if \<not> ecdsa_Verify p (key_Raw k) (jws_Algorithm m)
                          (jws_SigningInput m) (jws_Signature m)
               then Inl InvalidSignature
               else if option_Validate options False \<and>
                       \<not> option_SkipExpiryCheck options False \<and>
                       time_at_or_after (time_Now p) (token_Expiration (jws_Payload m))
               then Inl Expired
               else if option_Validate options False \<and>
                       time_before (time_Now p) (token_NotBefore (jws_Payload m))
               then Inl NotYetValid
               else (case apply_Predicates (option_Predicates options) (jws_Payload m) of
                       Some msg \<Rightarrow> Inl (PredicateFailed msg)
                     | None \<Rightarrow> Inr (jws_Payload m))
           | _ \<Rightarrow> Inl NoKeyInSet))"

text \<open>The libraries \<open>d\<close> with this verifier as \<^verbatim>\<open>jwt.ParseString\<close>.\<close>

definition with_jwt_spec :: "jwt_prims \<Rightarrow> deps \<Rightarrow> deps" where
  "with_jwt_spec p d = d\<lparr>jwt_ParseString := jwt_ParseString_spec p\<rparr>"

subsection \<open>Concrete libraries and tokens\<close>

text \<open>
  Libraries fixed for the concrete scenarios: every blob but \<open>not-a-key\<close> has PEM
  framing; the inner bytes \<open>cert\<close> are a certificate of an elliptic-curve key,
  \<open>rsa\<close> an RSA key, \<open>junk\<close> neither a key nor a certificate, and anything else an
  elliptic-curve key; \<^verbatim>\<open>jwk.New\<close> makes a key that carries another algorithm; the
  environment is empty, and a conversion out of range gives the least \<^verbatim>\<open>int64\<close>.
  The second argument is \<^verbatim>\<open>jwt.ParseString\<close>.
\<close>

definition test_key :: ecdsa_PublicKey where
  "test_key = \<lparr>ec_Curve = P384, ec_X = 7, ec_Y = 11\<rparr>"

definition test_deps ::
  "(string \<Rightarrow> jwt_ParseOption list \<Rightarrow> jwt_error + jwt_Token) \<Rightarrow> deps"
where
  "test_deps parse =
     \<lparr>pem_Decode = (\<lambda>b. if b = ''not-a-key'' then None
                          else Some \<lparr>block_Type = ''PUBLIC KEY'', block_Bytes = b\<rparr>),
      x509_ParsePKIXPublicKey = (\<lambda>b.
          if b = ''cert'' \<or> b = ''junk'' then Inl ''x509: failed to parse public key''
          else if b = ''rsa'' then Inr (RSAKey \<lparr>rsa_N = 3233, rsa_E = 17\<rparr>)
          else Inr (ECDSAKey test_key)),
      x509_ParseCertificate = (\<lambda>b.
          if b = ''cert''
          then Inr \<lparr>cert_PublicKey = ECDSAKey test_key, cert_Subject = ''CN=license''\<rparr>
          else Inl ''x509: malformed certificate''),
      jwk_New = (\<lambda>k. Inr \<lparr>key_Raw = k, key_Algorithm = Some ES256, key_KeyID = None\<rparr>),
      jwt_ParseString = parse,
      env_Get = (\<lambda>k dflt. dflt),
      float64_to_int64_overflow = (\<lambda>x. word_of_int (- (2 ^ 63)))\<rparr>"

text \<open>
  The claims of the scenario of the specification, with a subject and an expiration,
  and the token that carries a given map of claims.
\<close>

definition acme_claims :: claims where
  "acme_claims =
     [''aid'' \<mapsto> VFloat64 42, ''org'' \<mapsto> VString ''Acme'', ''cap'' \<mapsto> VFloat64 100,
      ''plan'' \<mapsto> VString ''enterprise'', ''did'' \<mapsto> VString ''dep-123'',
      ''sub'' \<mapsto> VString ''ops@acme.test'', ''exp'' \<mapsto> VTime (TimeUnix 4102444800)]"

definition token_of :: "claims \<Rightarrow> jwt_Token" where
  "token_of c =
     \<lparr>token_AsMap = Inr c, token_Subject = ''ops@acme.test'',
      token_Expiration = TimeUnix 4102444800, token_NotBefore = TimeZero\<rparr>"

text \<open>A \<^verbatim>\<open>jwt.ParseString\<close> that accepts every string as the token \<open>t\<close>.\<close>

definition accept :: "jwt_Token \<Rightarrow> string \<Rightarrow> jwt_ParseOption list \<Rightarrow> jwt_error + jwt_Token" where
  "accept t s options = Inr t"

text \<open>A \<^verbatim>\<open>jwt.ParseString\<close> that rejects every string with the error \<open>e\<close>.\<close>

definition reject :: "jwt_error \<Rightarrow> string \<Rightarrow> jwt_ParseOption list \<Rightarrow> jwt_error + jwt_Token" where
  "reject e s options = Inl e"

text \<open>A verifier as \<open>NewLicenseVerifier\<close> builds it from \<open>test_key\<close>.\<close>

definition test_verifier :: LicenseVerifier where
  "test_verifier =
     \<lparr>keySet = [\<lparr>key_Raw = test_key, key_Algorithm = Some ES384, key_KeyID = None\<rparr>]\<rparr>"

text \<open>
  Primitives of the token verifier for the concrete scenarios: every string decodes to
  a token of algorithm ES384 with the payload \<open>t\<close>, the signature \<open>good\<close> is the one
  that verifies, and the current time is \<open>now\<close>.
\<close>

definition test_prims :: "jwt_Token \<Rightarrow> int \<Rightarrow> jwt_prims" where
  "test_prims t now =
     \<lparr>decode_compact = (\<lambda>s. Some \<lparr>jws_Algorithm = ES384, jws_SigningInput = s,
                                   jws_Signature = ''good'', jws_Payload = t\<rparr>),
      ecdsa_Verify = (\<lambda>k a input sig. sig = ''good''),
      time_Now = now\<rparr>"

section \<open>Properties\<close>

subsection \<open>Auxiliary facts\<close>

lemma as_ecdsa_PublicKey_None: "\<forall>pk. k \<noteq> ECDSAKey pk \<Longrightarrow> as_ecdsa_PublicKey k = None"
  by (cases k) auto

lemma as_float64_not: "\<forall>x. v \<noteq> Some (VFloat64 x) \<Longrightarrow> as_float64 v = (0, False)"
  by (cases v rule: as_float64.cases) auto

lemma as_string_not: "\<forall>x. v \<noteq> Some (VString x) \<Longrightarrow> as_string v = ([], False)"
  by (cases v rule: as_string.cases) auto

text \<open>The checks of \<open>toLicenseInfo\<close> on the map of claims, one after the other.\<close>

lemma toLicenseInfo_claims:
  assumes "token_AsMap token = Inr claims"
  shows "toLicenseInfo d token =
    (if \<not> snd (as_float64 (claims accountID)) \<or> fst (as_float64 (claims accountID)) < 0
     then (LicenseInfo_zero, Some (InvalidClaim ''accountId''))
     else if \<not> snd (as_string (claims organization))
     then (LicenseInfo_zero, Some (InvalidClaim ''organization''))
     else if \<not> snd (as_float64 (claims capacity))
     then (LicenseInfo_zero, Some (InvalidClaim ''storage capacity''))
     else if \<not> snd (as_string (claims plan))
     then (LicenseInfo_zero, Some (InvalidClaim ''plan''))
     else (\<lparr>Email = token_Subject token,
            Organization = fst (as_string (claims organization)),
            AccountID = int64_of_float64 d (fst (as_float64 (claims accountID))),
            DeploymentID = fst (as_string (claims deploymentID)),
            StorageCapacity = int64_of_float64 d (fst (as_float64 (claims capacity))),
            Plan = fst (as_string (claims plan)),
            ExpiresAt = token_Expiration token\<rparr>, None))"
  using assms by (simp add: toLicenseInfo_def Let_def case_prod_beta)

lemma token_of_AsMap: "token_AsMap (token_of c) = Inr c"
  by (simp add: token_of_def)

lemma claim_names_distinct:
  "deploymentID \<noteq> accountID" "deploymentID \<noteq> organization"
  "deploymentID \<noteq> capacity" "deploymentID \<noteq> plan"
  by (simp_all add: deploymentID_def accountID_def organization_def capacity_def plan_def)

lemma Verify_parsed:
  assumes "jwt_ParseString d license
             (options @ [WithKeySet (keySet lv), UseDefaultKey True, WithValidate True]) = Inr token"
  shows "Verify d lv license options = toLicenseInfo d token"
  using assms by (simp add: Verify_def)

lemma Verify_rejected:
  assumes "jwt_ParseString d license
             (options @ [WithKeySet (keySet lv), UseDefaultKey True, WithValidate True]) = Inl e"
  shows "Verify d lv license options = (LicenseInfo_zero, Some (VerificationError e))"
  using assms by (simp add: Verify_def)

lemma test_deps_accept:
  "jwt_ParseString (test_deps (accept t)) license options = Inr t"
  by (simp add: test_deps_def accept_def)

lemma int64_of_float64_of_int:
  "- (2 ^ 63) \<le> n \<Longrightarrow> n < 2 ^ 63 \<Longrightarrow> int64_of_float64 d (real_of_int n) = word_of_int n"
  by (simp add: int64_of_float64_def trunc_toward_zero_def)

lemma sint_int64:
  "- (2 ^ 63) \<le> n \<Longrightarrow> n < 2 ^ 63 \<Longrightarrow> sint (word_of_int n :: 64 word) = n"
  by (simp add: sint_sbintrunc' signed_take_bit_int_eq_self)

text \<open>The conversion to \<^verbatim>\<open>int64\<close> discards the fraction, and a \<^verbatim>\<open>float64\<close> with a
  fraction is small enough to be converted exactly.\<close>

lemma trunc_toward_zero_abs_le: "\<bar>real_of_int (trunc_toward_zero x)\<bar> \<le> \<bar>x\<bar>"
  unfolding trunc_toward_zero_def by (simp; linarith)

lemma trunc_toward_zero_bounds:
  "\<bar>real_of_int (trunc_toward_zero x)\<bar> \<le> \<bar>x\<bar> \<and> \<bar>x\<bar> < \<bar>real_of_int (trunc_toward_zero x)\<bar> + 1 \<and>
   (0 \<le> x \<longrightarrow> 0 \<le> trunc_toward_zero x) \<and> (x \<le> 0 \<longrightarrow> trunc_toward_zero x \<le> 0)"
  unfolding trunc_toward_zero_def by (simp; linarith)

lemma is_float64_fraction_small:
  assumes "is_float64 x" and "x \<notin> \<int>"
  shows "\<bar>x\<bar> < 2 ^ 53"
proof -
  from assms(1) obtain m :: int and k :: nat where mk: "\<bar>m\<bar> < 2 ^ 53"
    and x: "k \<le> 971 \<and> x = real_of_int m * 2 ^ k \<or> k \<le> 1074 \<and> x = real_of_int m / 2 ^ k"
    unfolding is_float64_def by blast
  have "x \<noteq> real_of_int m * 2 ^ k"
  proof
    assume "x = real_of_int m * 2 ^ k"
    then have "x = real_of_int (m * 2 ^ k)" by simp
    then have "x \<in> \<int>" by (metis Ints_of_int)
    with assms(2) show False by simp
  qed
  with x have x': "x = real_of_int m / 2 ^ k" by blast
  have "\<bar>x\<bar> = \<bar>real_of_int m\<bar> / 2 ^ k" by (simp add: x')
  also have "\<dots> \<le> \<bar>real_of_int m\<bar>"
    by (simp add: divide_le_eq_1 field_simps mult_le_cancel_left1)
  also have "\<dots> < 2 ^ 53"
    using mk by (metis of_int_abs of_int_less_numeral_power_cancel_iff)
  finally show ?thesis .
qed

lemma int64_of_float64_fraction:
  assumes "is_float64 x" and "x \<notin> \<int>"
  shows "int64_of_float64 d x = word_of_int (trunc_toward_zero x)"
    and "sint (int64_of_float64 d x) = trunc_toward_zero x"
proof -
  have "\<bar>real_of_int (trunc_toward_zero x)\<bar> < 2 ^ 53"
    using trunc_toward_zero_abs_le [of x] is_float64_fraction_small [OF assms] by linarith
  then have "\<bar>trunc_toward_zero x\<bar> < 2 ^ 53"
    by (metis of_int_abs of_int_less_numeral_power_cancel_iff)
  moreover have "(2::int) ^ 53 \<le> 2 ^ 63" by simp
  ultimately have r: "- (2 ^ 63) \<le> trunc_toward_zero x" "trunc_toward_zero x < 2 ^ 63"
    by linarith+
  then show 1: "int64_of_float64 d x = word_of_int (trunc_toward_zero x)"
    by (simp add: int64_of_float64_def)
  show "sint (int64_of_float64 d x) = trunc_toward_zero x"
    unfolding 1 using r by (intro sint_int64) auto
qed

lemma toLicenseInfo_error_zero:
  "snd (toLicenseInfo d token) \<noteq> None \<Longrightarrow> fst (toLicenseInfo d token) = LicenseInfo_zero"
proof (cases "token_AsMap token")
  case (Inl e)
  then show ?thesis by (simp add: toLicenseInfo_def)
next
  case (Inr claims)
  assume "snd (toLicenseInfo d token) \<noteq> None"
  then show ?thesis
    unfolding toLicenseInfo_claims [OF Inr] by (auto split: if_splits)
qed

text \<open>Facts of the concrete libraries and tokens.\<close>

lemma test_deps_reject:
  "jwt_ParseString (test_deps (reject e)) license options = Inl e"
  by (simp add: test_deps_def reject_def)

lemma toLicenseInfo_token_of:
  "toLicenseInfo d (token_of c) =
    (if \<not> snd (as_float64 (c accountID)) \<or> fst (as_float64 (c accountID)) < 0
     then (LicenseInfo_zero, Some (InvalidClaim ''accountId''))
     else if \<not> snd (as_string (c organization))
     then (LicenseInfo_zero, Some (InvalidClaim ''organization''))
     else if \<not> snd (as_float64 (c capacity))
     then (LicenseInfo_zero, Some (InvalidClaim ''storage capacity''))
     else if \<not> snd (as_string (c plan))
     then (LicenseInfo_zero, Some (InvalidClaim ''plan''))
     else (\<lparr>Email = ''ops@acme.test'',
            Organization = fst (as_string (c organization)),
            AccountID = int64_of_float64 d (fst (as_float64 (c accountID))),
            DeploymentID = fst (as_string (c deploymentID)),
            StorageCapacity = int64_of_float64 d (fst (as_float64 (c capacity))),
            Plan = fst (as_string (c plan)),
            ExpiresAt = TimeUnix 4102444800\<rparr>, None))"
  unfolding toLicenseInfo_claims [OF token_of_AsMap] by (simp add: token_of_def)

lemma Verify_acme:
  "Verify (test_deps (accept (token_of acme_claims))) lv license options
   = (\<lparr>Email = ''ops@acme.test'', Organization = ''Acme'', AccountID = 42,
       DeploymentID = ''dep-123'', StorageCapacity = 100, Plan = ''enterprise'',
       ExpiresAt = TimeUnix 4102444800\<rparr>, None)"
  using int64_of_float64_of_int [of 42] int64_of_float64_of_int [of 100]
  by (simp add: Verify_parsed [OF test_deps_accept] toLicenseInfo_token_of
      accountID_def organization_def capacity_def plan_def deploymentID_def acme_claims_def)

lemma Verify_acme_no_org:
  "Verify (test_deps (accept (token_of (acme_claims(''org'' := None))))) lv license options
   = (LicenseInfo_zero, Some (InvalidClaim ''organization''))"
  by (simp add: Verify_parsed [OF test_deps_accept] toLicenseInfo_token_of
      accountID_def organization_def capacity_def plan_def deploymentID_def acme_claims_def)

lemma NewLicenseVerifier_test:
  "NewLicenseVerifier (test_deps parse) (pemBytes (test_deps parse)) = Inr test_verifier"
  by (simp add: NewLicenseVerifier_def parseECPublicKeyFromPEM_def test_deps_def
      pemBytes_def pemBytes_prod_def keyset_Add_def jwk_NewSet_def key_Set_AlgorithmKey_def
      test_verifier_def)

lemma NewLicenseVerifier_not_a_key:
  "NewLicenseVerifier (test_deps parse) ''not-a-key'' = Inl (ParsePublicKeyFailed KeyFormatError)"
  by (simp add: NewLicenseVerifier_def parseECPublicKeyFromPEM_def test_deps_def)

text \<open>
  The token verifier of the specification: what the options appended by \<open>Verify\<close>
  set, what an accepted token has passed, the checks under the default options, and
  the scenario of the specification, which it accepts before the expiration.
\<close>

lemma option_KeySet_appended:
  "option_KeySet (options @ [WithKeySet ks, UseDefaultKey b, WithValidate v]) acc = ks"
  by (induction options acc rule: option_KeySet.induct) simp_all

lemma option_Validate_appended:
  "option_Validate (options @ [WithKeySet ks, UseDefaultKey b, WithValidate v]) acc = v"
  by (induction options acc rule: option_Validate.induct) simp_all

lemma jwt_ParseString_spec_accepted:
  assumes "jwt_ParseString_spec p s
             (options @ [WithKeySet ks, UseDefaultKey True, WithValidate True]) = Inr token"
  shows "\<exists>m k. decode_compact p s = Some m \<and> ks = [k] \<and> token = jws_Payload m \<and>
           key_Algorithm k = Some (jws_Algorithm m) \<and>
           ecdsa_Verify p (key_Raw k) (jws_Algorithm m) (jws_SigningInput m) (jws_Signature m) \<and>
           (time_at_or_after (time_Now p) (token_Expiration token) \<longrightarrow>
              option_SkipExpiryCheck
                (options @ [WithKeySet ks, UseDefaultKey True, WithValidate True]) False) \<and>
           \<not> time_before (time_Now p) (token_NotBefore token)"
  using assms
  by (auto simp: jwt_ParseString_spec_def option_KeySet_appended option_Validate_appended
      split: option.splits list.splits if_splits)

lemma jwt_ParseString_spec_default:
  assumes "decode_compact p s = Some m"
  shows "jwt_ParseString_spec p s [WithKeySet ks, UseDefaultKey True, WithValidate True] =
    (case ks of
       [k] \<Rightarrow>
         if key_Algorithm k \<noteq> Some (jws_Algorithm m) then Inl SignatureAlgorithmMismatch
         else if \<not> ecdsa_Verify p (key_Raw k) (jws_Algorithm m)
                    (jws_SigningInput m) (jws_Signature m)
         then Inl InvalidSignature
         else if time_at_or_after (time_Now p) (token_Expiration (jws_Payload m))
         then Inl Expired
         else if time_before (time_Now p) (token_NotBefore (jws_Payload m))
         then Inl NotYetValid
         else Inr (jws_Payload m)
     | _ \<Rightarrow> Inl NoKeyInSet)"
  using assms by (simp add: jwt_ParseString_spec_def split: list.splits)

lemma jwt_ParseString_spec_expired:
  assumes "decode_compact p s = Some m"
    and "token_Expiration (jws_Payload m) = TimeUnix e" and "e < time_Now p"
  shows "\<exists>err. jwt_ParseString_spec p s
            [WithKeySet ks, UseDefaultKey True, WithValidate True] = Inl err"
  using assms(2,3)
  by (simp add: jwt_ParseString_spec_default [OF assms(1)] split: list.splits)

lemma Verify_spec_rejected:
  assumes "jwt_ParseString_spec p license
             [WithKeySet (keySet lv), UseDefaultKey True, WithValidate True] = Inl err"
  shows "Verify (with_jwt_spec p d) lv license []
           = (LicenseInfo_zero, Some (VerificationError err))"
  using assms by (simp add: Verify_def with_jwt_spec_def)

lemma Verify_spec_acme:
  "Verify (with_jwt_spec (test_prims (token_of acme_claims) 1700000000) (test_deps parse))
      test_verifier ''license'' []
   = (\<lparr>Email = ''ops@acme.test'', Organization = ''Acme'', AccountID = 42,
       DeploymentID = ''dep-123'', StorageCapacity = 100, Plan = ''enterprise'',
       ExpiresAt = TimeUnix 4102444800\<rparr>, None)"
proof -
  let ?d = "with_jwt_spec (test_prims (token_of acme_claims) 1700000000) (test_deps parse)"
  have "jwt_ParseString ?d ''license''
      ([] @ [WithKeySet (keySet test_verifier), UseDefaultKey True, WithValidate True])
      = Inr (token_of acme_claims)"
    by (simp add: with_jwt_spec_def jwt_ParseString_spec_def test_prims_def test_verifier_def
        token_of_def)
  then have "Verify ?d test_verifier ''license'' [] = toLicenseInfo ?d (token_of acme_claims)"
    by (rule Verify_parsed)
  then show ?thesis
    using int64_of_float64_of_int [of 42] int64_of_float64_of_int [of 100]
    by (simp add: toLicenseInfo_token_of
      accountID_def organization_def capacity_def plan_def deploymentID_def acme_claims_def)
qed

text \<open>
  The integer \<open>2 ^ 53 + 1\<close> is not a \<^verbatim>\<open>float64\<close>, and no \<^verbatim>\<open>float64\<close> is
  converted to it; the scenario of the specification with another account id, and
  with a not-before time in the future.
\<close>

lemma is_float64_of_small_int: "\<bar>n\<bar> < 2 ^ 53 \<Longrightarrow> is_float64 (real_of_int n)"
  unfolding is_float64_def by (rule exI [of _ n], rule exI [of _ 0]) simp

lemma float64_trunc_not_2p53_plus_1:
  assumes "is_float64 x"
  shows "trunc_toward_zero x \<noteq> 9007199254740993"
proof
  assume t: "trunc_toward_zero x = 9007199254740993"
  have pos: "0 \<le> x"
  proof (rule ccontr)
    assume "\<not> 0 \<le> x"
    then have "trunc_toward_zero x \<le> 0" by (simp add: trunc_toward_zero_def; linarith)
    with t show False by simp
  qed
  with t have fl: "\<lfloor>x\<rfloor> = 9007199254740993" by (simp add: trunc_toward_zero_def)
  from assms obtain m :: int and k :: nat where mk: "\<bar>m\<bar> < 2 ^ 53"
    and x: "k \<le> 971 \<and> x = real_of_int m * 2 ^ k \<or> k \<le> 1074 \<and> x = real_of_int m / 2 ^ k"
    unfolding is_float64_def by blast
  have big: "2 ^ 53 \<le> \<bar>x\<bar>"
  proof -
    have "real_of_int \<lfloor>x\<rfloor> \<le> x" by simp
    with fl have "9007199254740993 \<le> x" by simp
    then show ?thesis by simp
  qed
  have ndiv: "x \<noteq> real_of_int m / 2 ^ k"
  proof
    assume x': "x = real_of_int m / 2 ^ k"
    have "\<bar>x\<bar> = \<bar>real_of_int m\<bar> / 2 ^ k" by (simp add: x')
    also have "\<dots> \<le> \<bar>real_of_int m\<bar>"
      by (simp add: divide_le_eq_1 field_simps mult_le_cancel_left1)
    also have "\<dots> < 2 ^ 53"
      using mk by (metis of_int_abs of_int_less_numeral_power_cancel_iff)
    finally show False using big by simp
  qed
  with x have x': "x = real_of_int m * 2 ^ k" by blast
  then have "x = real_of_int (m * 2 ^ k)" by simp
  then have "\<lfloor>x\<rfloor> = m * 2 ^ k" by (simp only: floor_of_int)
  with fl have e: "m * 2 ^ k = 9007199254740993" by simp
  show False
  proof (cases k)
    case 0
    with e mk show False by simp
  next
    case (Suc j)
    then have "2 dvd m * 2 ^ k" by simp
    with e have "(2::int) dvd 9007199254740993" by simp
    then show False by simp
  qed
qed


lemma not_float64_2p53_plus_1: "\<not> is_float64 9007199254740993"
proof
  assume "is_float64 9007199254740993"
  then have "trunc_toward_zero 9007199254740993 \<noteq> 9007199254740993"
    by (rule float64_trunc_not_2p53_plus_1)
  then show False by (simp add: trunc_toward_zero_def)
qed

lemma Verify_acme_aid:
  "Verify (test_deps (accept (token_of (acme_claims(''aid'' \<mapsto> VFloat64 x))))) lv license options
   = (if x < 0 then (LicenseInfo_zero, Some (InvalidClaim ''accountId''))
      else (\<lparr>Email = ''ops@acme.test'', Organization = ''Acme'',
        AccountID =
          int64_of_float64 (test_deps (accept (token_of (acme_claims(''aid'' \<mapsto> VFloat64 x))))) x,
        DeploymentID = ''dep-123'', StorageCapacity = 100, Plan = ''enterprise'',
        ExpiresAt = TimeUnix 4102444800\<rparr>, None))"
  using int64_of_float64_of_int [of 100]
  by (simp add: Verify_parsed [OF test_deps_accept] toLicenseInfo_token_of
      accountID_def organization_def capacity_def plan_def deploymentID_def acme_claims_def)

lemma test_deps_int64_of_float64:
  "sint (int64_of_float64 (test_deps parse) x) =
     (if - (2 ^ 63) \<le> trunc_toward_zero x \<and> trunc_toward_zero x < 2 ^ 63
      then trunc_toward_zero x else - (2 ^ 63))"
proof (cases "- (2 ^ 63) \<le> trunc_toward_zero x \<and> trunc_toward_zero x < 2 ^ 63")
  case True
  then have "sint (word_of_int (trunc_toward_zero x) :: 64 word) = trunc_toward_zero x"
    by (intro sint_int64) auto
  with True show ?thesis by (simp add: int64_of_float64_def)
next
  case False
  have "int64_of_float64 (test_deps parse) x = float64_to_int64_overflow (test_deps parse) x"
    unfolding int64_of_float64_def by (simp only: False if_False)
  then have o: "int64_of_float64 (test_deps parse) x = word_of_int (- (2 ^ 63))"
    by (simp add: test_deps_def)
  have s: "sint (word_of_int (- (2 ^ 63)) :: 64 word) = - (2 ^ 63)"
    by (intro sint_int64) auto
  show ?thesis by (simp only: o s False if_False)
qed

lemma Verify_spec_not_yet_valid:
  "Verify (with_jwt_spec
      (test_prims ((token_of acme_claims)\<lparr>token_NotBefore := TimeUnix 1800000000\<rparr>) 1700000000)
      (test_deps parse)) test_verifier ''license'' []
   = (LicenseInfo_zero, Some (VerificationError NotYetValid))"
  by (rule Verify_spec_rejected)
     (simp add: jwt_ParseString_spec_def test_prims_def test_verifier_def token_of_def)

text \<open>A library that writes to no key set leaves the verifier as it was.\<close>

lemma Verify_st_read_only:
  assumes "\<forall>s os ks. w s os ks = ks"
  shows "snd (Verify_st d w lv license options) = lv"
  using assms by (simp add: Verify_st_def)

lemma Verify_calls_read_only:
  assumes "\<forall>s os ks. w s os ks = ks"
  shows "Verify_calls d w lv calls = lv"
proof (induction calls)
  case Nil
  show ?case by simp
next
  case (Cons c calls)
  obtain license options where c: "c = (license, options)" by (cases c)
  show ?case by (simp add: c Verify_st_read_only [OF assms] Cons.IH)
qed

subsection \<open>The account id\<close>

text \<open>
  Claim C2. On a token whose claims can be read, when the claim \<open>aid\<close> is absent, is
  not a number or is a negative number, \<open>toLicenseInfo\<close> returns the error
  \<open>InvalidClaim accountId\<close> together with the zero \<open>LicenseInfo\<close>. An \<open>aid\<close> of
  exactly 0 never gives that error, and with the other required claims well typed
  the extraction succeeds with \<open>AccountID = 0\<close>.
\<close>

theorem toLicenseInfo_accountId:
  assumes "token_AsMap token = Inr claims"
  shows "(claims accountID = None \<or>
          (\<exists>v. claims accountID = Some v \<and> (\<forall>x. v \<noteq> VFloat64 x)) \<or>
          (\<exists>x. claims accountID = Some (VFloat64 x) \<and> x < 0)
          \<longrightarrow> toLicenseInfo d token = (LicenseInfo_zero, Some (InvalidClaim ''accountId'')))
       \<and> (claims accountID = Some (VFloat64 0)
          \<longrightarrow> snd (toLicenseInfo d token) \<noteq> Some (InvalidClaim ''accountId''))
       \<and> (claims accountID = Some (VFloat64 0) \<and> claims organization = Some (VString org) \<and>
          claims capacity = Some (VFloat64 cap) \<and> claims plan = Some (VString pl)
          \<longrightarrow> snd (toLicenseInfo d token) = None \<and>
              AccountID (fst (toLicenseInfo d token)) = 0)"
proof (intro conjI impI)
  assume "claims accountID = None \<or>
          (\<exists>v. claims accountID = Some v \<and> (\<forall>x. v \<noteq> VFloat64 x)) \<or>
          (\<exists>x. claims accountID = Some (VFloat64 x) \<and> x < 0)"
  then consider "\<forall>x. claims accountID \<noteq> Some (VFloat64 x)"
    | x where "claims accountID = Some (VFloat64 x)" "x < 0"
    by auto
  then show "toLicenseInfo d token = (LicenseInfo_zero, Some (InvalidClaim ''accountId''))"
  proof cases
    case 1
    then show ?thesis by (simp add: toLicenseInfo_claims [OF assms] as_float64_not)
  next
    case 2
    then show ?thesis by (simp add: toLicenseInfo_claims [OF assms])
  qed
next
  assume "claims accountID = Some (VFloat64 0)"
  then show "snd (toLicenseInfo d token) \<noteq> Some (InvalidClaim ''accountId'')"
    by (simp add: toLicenseInfo_claims [OF assms])
next
  assume a: "claims accountID = Some (VFloat64 0) \<and> claims organization = Some (VString org) \<and>
          claims capacity = Some (VFloat64 cap) \<and> claims plan = Some (VString pl)"
  then show "snd (toLicenseInfo d token) = None"
    by (simp add: toLicenseInfo_claims [OF assms])
  from a show "AccountID (fst (toLicenseInfo d token)) = 0"
    by (simp add: toLicenseInfo_claims [OF assms] int64_of_float64_def trunc_toward_zero_def)
qed

theorem toLicenseInfo_accountId_witness:
  "toLicenseInfo (test_deps (accept (token_of acme_claims)))
      (token_of (acme_claims(''aid'' := None)))
     = (LicenseInfo_zero, Some (InvalidClaim ''accountId''))
   \<and> toLicenseInfo (test_deps (accept (token_of acme_claims)))
      (token_of (acme_claims(''aid'' \<mapsto> VString ''42'')))
     = (LicenseInfo_zero, Some (InvalidClaim ''accountId''))
   \<and> toLicenseInfo (test_deps (accept (token_of acme_claims)))
      (token_of (acme_claims(''aid'' \<mapsto> VFloat64 (- 1))))
     = (LicenseInfo_zero, Some (InvalidClaim ''accountId''))
   \<and> snd (toLicenseInfo (test_deps (accept (token_of acme_claims)))
      (token_of (acme_claims(''aid'' \<mapsto> VFloat64 0)))) = None
   \<and> AccountID (fst (toLicenseInfo (test_deps (accept (token_of acme_claims)))
      (token_of (acme_claims(''aid'' \<mapsto> VFloat64 0))))) = 0"
proof -
  let ?d = "test_deps (accept (token_of acme_claims))"
  have 1: "toLicenseInfo ?d (token_of (acme_claims(''aid'' := None)))
      = (LicenseInfo_zero, Some (InvalidClaim ''accountId''))"
    using toLicenseInfo_accountId [OF token_of_AsMap, of "acme_claims(''aid'' := None)" ?d]
    by (simp add: accountID_def)
  have 2: "toLicenseInfo ?d (token_of (acme_claims(''aid'' \<mapsto> VString ''42'')))
      = (LicenseInfo_zero, Some (InvalidClaim ''accountId''))"
    using toLicenseInfo_accountId
      [OF token_of_AsMap, of "acme_claims(''aid'' \<mapsto> VString ''42'')" ?d]
    by (simp add: accountID_def)
  have 3: "toLicenseInfo ?d (token_of (acme_claims(''aid'' \<mapsto> VFloat64 (- 1))))
      = (LicenseInfo_zero, Some (InvalidClaim ''accountId''))"
    using toLicenseInfo_accountId
      [OF token_of_AsMap, of "acme_claims(''aid'' \<mapsto> VFloat64 (- 1))" ?d]
    by (simp add: accountID_def)
  have 4: "snd (toLicenseInfo ?d (token_of (acme_claims(''aid'' \<mapsto> VFloat64 0)))) = None
    \<and> AccountID (fst (toLicenseInfo ?d (token_of (acme_claims(''aid'' \<mapsto> VFloat64 0))))) = 0"
    using toLicenseInfo_accountId
      [OF token_of_AsMap, of "acme_claims(''aid'' \<mapsto> VFloat64 0)" ?d
        "''Acme''" 100 "''enterprise''"]
    by (simp add: accountID_def organization_def capacity_def plan_def acme_claims_def)
  from 1 2 3 4 show ?thesis by blast
qed

subsection \<open>A deployment id of the wrong type\<close>

text \<open>
  Claim C10. On a token whose claim \<open>did\<close> is present but is not a string,
  \<open>toLicenseInfo\<close> returns what it returns on the same token without the claim, the
  \<open>DeploymentID\<close> it returns is the empty string, an \<open>InvalidClaim\<close> error names one
  of the four other fields and never the deployment id, and with the four required
  claims well typed the extraction succeeds.
\<close>

theorem toLicenseInfo_deploymentId_wrong_type:
  assumes "token_AsMap token = Inr claims"
    and "claims deploymentID = Some v" and "\<forall>s. v \<noteq> VString s"
  shows "toLicenseInfo d token =
           toLicenseInfo d (token\<lparr>token_AsMap := Inr (claims(deploymentID := None))\<rparr>)
       \<and> DeploymentID (fst (toLicenseInfo d token)) = []
       \<and> (\<forall>f. snd (toLicenseInfo d token) = Some (InvalidClaim f) \<longrightarrow>
              f \<in> {''accountId'', ''organization'', ''storage capacity'', ''plan''})
       \<and> (claims accountID = Some (VFloat64 a) \<and> 0 \<le> a \<and>
          claims organization = Some (VString org) \<and>
          claims capacity = Some (VFloat64 c) \<and> claims plan = Some (VString pl) \<longrightarrow>
          toLicenseInfo d token =
            (\<lparr>Email = token_Subject token, Organization = org,
              AccountID = int64_of_float64 d a, DeploymentID = [],
              StorageCapacity = int64_of_float64 d c, Plan = pl,
              ExpiresAt = token_Expiration token\<rparr>, None))"
proof -
  have dep: "as_string (claims deploymentID) = ([], False)"
    using assms(2,3) by (simp add: as_string_not)
  let ?t = "token\<lparr>token_AsMap := Inr (claims(deploymentID := None))\<rparr>"
  have m: "token_AsMap ?t = Inr (claims(deploymentID := None))" by simp
  have 1: "toLicenseInfo d token = toLicenseInfo d ?t"
    by (simp add: toLicenseInfo_claims [OF assms(1)] toLicenseInfo_claims [OF m]
        claim_names_distinct [symmetric] dep)
  have 2: "DeploymentID (fst (toLicenseInfo d token)) = []"
    by (simp add: toLicenseInfo_claims [OF assms(1)] dep LicenseInfo_zero_def)
  have 3: "\<forall>f. snd (toLicenseInfo d token) = Some (InvalidClaim f) \<longrightarrow>
              f \<in> {''accountId'', ''organization'', ''storage capacity'', ''plan''}"
    by (simp add: toLicenseInfo_claims [OF assms(1)])
  have 4: "claims accountID = Some (VFloat64 a) \<and> 0 \<le> a \<and>
          claims organization = Some (VString org) \<and>
          claims capacity = Some (VFloat64 c) \<and> claims plan = Some (VString pl) \<longrightarrow>
          toLicenseInfo d token =
            (\<lparr>Email = token_Subject token, Organization = org,
              AccountID = int64_of_float64 d a, DeploymentID = [],
              StorageCapacity = int64_of_float64 d c, Plan = pl,
              ExpiresAt = token_Expiration token\<rparr>, None)"
    by (simp add: toLicenseInfo_claims [OF assms(1)] dep)
  from 1 2 3 4 show ?thesis by blast
qed

theorem toLicenseInfo_deploymentId_wrong_type_witness:
  "toLicenseInfo (test_deps (accept (token_of acme_claims)))
      (token_of (acme_claims(''did'' \<mapsto> VFloat64 123)))
   = (\<lparr>Email = ''ops@acme.test'', Organization = ''Acme'', AccountID = 42,
       DeploymentID = [], StorageCapacity = 100, Plan = ''enterprise'',
       ExpiresAt = TimeUnix 4102444800\<rparr>, None)"
proof -
  let ?c = "acme_claims(''did'' \<mapsto> VFloat64 123)"
  let ?d = "test_deps (accept (token_of acme_claims))"
  have did: "?c deploymentID = Some (VFloat64 123)" by (simp add: deploymentID_def)
  have ty: "\<forall>s. VFloat64 123 \<noteq> VString s" by simp
  have rest: "?c accountID = Some (VFloat64 42) \<and> (0::real) \<le> 42 \<and>
      ?c organization = Some (VString ''Acme'') \<and>
      ?c capacity = Some (VFloat64 100) \<and> ?c plan = Some (VString ''enterprise'')"
    by (simp add: accountID_def organization_def capacity_def plan_def acme_claims_def)
  have "toLicenseInfo ?d (token_of ?c) =
      (\<lparr>Email = token_Subject (token_of ?c), Organization = ''Acme'',
        AccountID = int64_of_float64 ?d 42, DeploymentID = [],
        StorageCapacity = int64_of_float64 ?d 100, Plan = ''enterprise'',
        ExpiresAt = token_Expiration (token_of ?c)\<rparr>, None)"
    using toLicenseInfo_deploymentId_wrong_type
      [where token = "token_of ?c" and claims = ?c and v = "VFloat64 123" and d = ?d,
        OF token_of_AsMap did ty] rest
    by blast
  then show ?thesis
    by (simp add: token_of_def int64_of_float64_def trunc_toward_zero_def)
qed

subsection \<open>An absent deployment id\<close>

text \<open>
  Claim C3. On a license that the library accepts, with the other claims valid and
  the claim \<open>did\<close> absent, \<open>Verify\<close> succeeds and the \<open>DeploymentID\<close> it returns is
  the empty string. The other custom claims are strict: when \<open>org\<close>, \<open>cap\<close> or
  \<open>plan\<close> is absent or of the wrong type, \<open>Verify\<close> fails with the zero
  \<open>LicenseInfo\<close>, and the error names that field when the claims checked before it
  are valid.
\<close>

theorem Verify_deploymentId_absent:
  assumes parse: "jwt_ParseString d license
             (options @ [WithKeySet (keySet lv), UseDefaultKey True, WithValidate True]) = Inr token"
    and m: "token_AsMap token = Inr claims"
  shows "(claims deploymentID = None \<and> claims accountID = Some (VFloat64 a) \<and> 0 \<le> a \<and>
          claims organization = Some (VString org) \<and>
          claims capacity = Some (VFloat64 c) \<and> claims plan = Some (VString pl) \<longrightarrow>
          Verify d lv license options =
            (\<lparr>Email = token_Subject token, Organization = org,
              AccountID = int64_of_float64 d a, DeploymentID = [],
              StorageCapacity = int64_of_float64 d c, Plan = pl,
              ExpiresAt = token_Expiration token\<rparr>, None))
       \<and> (claims accountID = Some (VFloat64 a) \<and> 0 \<le> a \<and>
          (\<forall>s. claims organization \<noteq> Some (VString s)) \<longrightarrow>
          Verify d lv license options = (LicenseInfo_zero, Some (InvalidClaim ''organization'')))
       \<and> (claims accountID = Some (VFloat64 a) \<and> 0 \<le> a \<and>
          claims organization = Some (VString org) \<and>
          (\<forall>x. claims capacity \<noteq> Some (VFloat64 x)) \<longrightarrow>
          Verify d lv license options =
            (LicenseInfo_zero, Some (InvalidClaim ''storage capacity'')))
       \<and> (claims accountID = Some (VFloat64 a) \<and> 0 \<le> a \<and>
          claims organization = Some (VString org) \<and>
          claims capacity = Some (VFloat64 c) \<and>
          (\<forall>s. claims plan \<noteq> Some (VString s)) \<longrightarrow>
          Verify d lv license options = (LicenseInfo_zero, Some (InvalidClaim ''plan'')))
       \<and> ((\<forall>s. claims organization \<noteq> Some (VString s)) \<or>
          (\<forall>x. claims capacity \<noteq> Some (VFloat64 x)) \<or>
          (\<forall>s. claims plan \<noteq> Some (VString s)) \<longrightarrow>
          fst (Verify d lv license options) = LicenseInfo_zero \<and>
          snd (Verify d lv license options) \<noteq> None)"
proof (intro conjI impI)
  note V = Verify_parsed [OF parse] toLicenseInfo_claims [OF m]
  { assume "claims deploymentID = None \<and> claims accountID = Some (VFloat64 a) \<and> 0 \<le> a \<and>
          claims organization = Some (VString org) \<and>
          claims capacity = Some (VFloat64 c) \<and> claims plan = Some (VString pl)"
    then show "Verify d lv license options =
            (\<lparr>Email = token_Subject token, Organization = org,
              AccountID = int64_of_float64 d a, DeploymentID = [],
              StorageCapacity = int64_of_float64 d c, Plan = pl,
              ExpiresAt = token_Expiration token\<rparr>, None)"
      by (simp add: V) }
  { assume "claims accountID = Some (VFloat64 a) \<and> 0 \<le> a \<and>
          (\<forall>s. claims organization \<noteq> Some (VString s))"
    then show "Verify d lv license options =
        (LicenseInfo_zero, Some (InvalidClaim ''organization''))"
      by (simp add: V as_string_not) }
  { assume "claims accountID = Some (VFloat64 a) \<and> 0 \<le> a \<and>
          claims organization = Some (VString org) \<and>
          (\<forall>x. claims capacity \<noteq> Some (VFloat64 x))"
    then show "Verify d lv license options =
        (LicenseInfo_zero, Some (InvalidClaim ''storage capacity''))"
      by (simp add: V as_float64_not) }
  { assume "claims accountID = Some (VFloat64 a) \<and> 0 \<le> a \<and>
          claims organization = Some (VString org) \<and>
          claims capacity = Some (VFloat64 c) \<and>
          (\<forall>s. claims plan \<noteq> Some (VString s))"
    then show "Verify d lv license options = (LicenseInfo_zero, Some (InvalidClaim ''plan''))"
      by (simp add: V as_string_not) }
  { assume bad: "(\<forall>s. claims organization \<noteq> Some (VString s)) \<or>
          (\<forall>x. claims capacity \<noteq> Some (VFloat64 x)) \<or>
          (\<forall>s. claims plan \<noteq> Some (VString s))"
    then have "\<not> snd (as_string (claims organization)) \<or>
        \<not> snd (as_float64 (claims capacity)) \<or> \<not> snd (as_string (claims plan))"
      by (auto simp: as_string_not as_float64_not)
    then show "fst (Verify d lv license options) = LicenseInfo_zero"
      and "snd (Verify d lv license options) \<noteq> None"
      by (auto simp: V) }
qed

theorem Verify_deploymentId_absent_witness:
  "Verify (test_deps (accept (token_of (acme_claims(''did'' := None)))))
      test_verifier ''license'' []
   = (\<lparr>Email = ''ops@acme.test'', Organization = ''Acme'', AccountID = 42,
       DeploymentID = [], StorageCapacity = 100, Plan = ''enterprise'',
       ExpiresAt = TimeUnix 4102444800\<rparr>, None)
   \<and> Verify (test_deps (accept (token_of (acme_claims(''org'' := None)))))
      test_verifier ''license'' []
   = (LicenseInfo_zero, Some (InvalidClaim ''organization''))
   \<and> Verify (test_deps (accept (token_of (acme_claims(''cap'' \<mapsto> VString ''100'')))))
      test_verifier ''license'' []
   = (LicenseInfo_zero, Some (InvalidClaim ''storage capacity''))
   \<and> Verify (test_deps (accept (token_of (acme_claims(''plan'' := None)))))
      test_verifier ''license'' []
   = (LicenseInfo_zero, Some (InvalidClaim ''plan''))"
proof -
  note names = accountID_def organization_def capacity_def plan_def deploymentID_def
  let ?c1 = "acme_claims(''did'' := None)"
  let ?c2 = "acme_claims(''org'' := None)"
  let ?c3 = "acme_claims(''cap'' \<mapsto> VString ''100'')"
  let ?c4 = "acme_claims(''plan'' := None)"
  have h1: "?c1 deploymentID = None \<and> ?c1 accountID = Some (VFloat64 42) \<and> (0::real) \<le> 42 \<and>
      ?c1 organization = Some (VString ''Acme'') \<and> ?c1 capacity = Some (VFloat64 100) \<and>
      ?c1 plan = Some (VString ''enterprise'')"
    by (simp add: names acme_claims_def)
  have "Verify (test_deps (accept (token_of ?c1))) test_verifier ''license'' [] =
      (\<lparr>Email = token_Subject (token_of ?c1), Organization = ''Acme'',
        AccountID = int64_of_float64 (test_deps (accept (token_of ?c1))) 42,
        DeploymentID = [],
        StorageCapacity = int64_of_float64 (test_deps (accept (token_of ?c1))) 100,
        Plan = ''enterprise'', ExpiresAt = token_Expiration (token_of ?c1)\<rparr>, None)"
    using Verify_deploymentId_absent
      [where token = "token_of ?c1" and claims = ?c1, OF test_deps_accept token_of_AsMap] h1
    by blast
  then have 1: "Verify (test_deps (accept (token_of ?c1))) test_verifier ''license'' [] =
      (\<lparr>Email = ''ops@acme.test'', Organization = ''Acme'', AccountID = 42,
       DeploymentID = [], StorageCapacity = 100, Plan = ''enterprise'',
       ExpiresAt = TimeUnix 4102444800\<rparr>, None)"
    using int64_of_float64_of_int [of 42] int64_of_float64_of_int [of 100]
    by (simp add: token_of_def)
  have h2: "?c2 accountID = Some (VFloat64 42) \<and> (0::real) \<le> 42 \<and>
      (\<forall>s. ?c2 organization \<noteq> Some (VString s))"
    by (simp add: names acme_claims_def)
  have 2: "Verify (test_deps (accept (token_of ?c2))) test_verifier ''license'' [] =
      (LicenseInfo_zero, Some (InvalidClaim ''organization''))"
    using Verify_deploymentId_absent
      [where token = "token_of ?c2" and claims = ?c2, OF test_deps_accept token_of_AsMap] h2
    by blast
  have h3: "?c3 accountID = Some (VFloat64 42) \<and> (0::real) \<le> 42 \<and>
      ?c3 organization = Some (VString ''Acme'') \<and>
      (\<forall>x. ?c3 capacity \<noteq> Some (VFloat64 x))"
    by (simp add: names acme_claims_def)
  have 3: "Verify (test_deps (accept (token_of ?c3))) test_verifier ''license'' [] =
      (LicenseInfo_zero, Some (InvalidClaim ''storage capacity''))"
    using Verify_deploymentId_absent
      [where token = "token_of ?c3" and claims = ?c3, OF test_deps_accept token_of_AsMap] h3
    by blast
  have h4: "?c4 accountID = Some (VFloat64 42) \<and> (0::real) \<le> 42 \<and>
      ?c4 organization = Some (VString ''Acme'') \<and> ?c4 capacity = Some (VFloat64 100) \<and>
      (\<forall>s. ?c4 plan \<noteq> Some (VString s))"
    by (simp add: names acme_claims_def)
  have 4: "Verify (test_deps (accept (token_of ?c4))) test_verifier ''license'' [] =
      (LicenseInfo_zero, Some (InvalidClaim ''plan''))"
    using Verify_deploymentId_absent
      [where token = "token_of ?c4" and claims = ?c4, OF test_deps_accept token_of_AsMap] h4
    by blast
  from 1 2 3 4 show ?thesis by blast
qed

subsection \<open>The claims of an accepted license\<close>

text \<open>
  Claim C1, as stated, fails on two tokens that are well formed, signed with the
  matching key and not expired. The claims map holds a \<^verbatim>\<open>float64\<close>, so an account
  id that is not a \<^verbatim>\<open>float64\<close>, such as \<open>2 ^ 53 + 1\<close>, is never the \<open>AccountID\<close>
  returned, whatever \<^verbatim>\<open>float64\<close> the map holds for it; with the nearest one,
  \<open>2 ^ 53\<close>, \<open>Verify\<close> succeeds and returns \<open>2 ^ 53\<close>. And the token verifier of the
  specification rejects a signed, unexpired token whose not-before time is in the
  future, so that \<open>Verify\<close> fails.
\<close>

theorem Verify_returns_claims_counterexample:
  "\<not> is_float64 9007199254740993
   \<and> \<not> (\<exists>x. is_float64 x \<and>
         sint (AccountID (fst (Verify
           (test_deps (accept (token_of (acme_claims(''aid'' \<mapsto> VFloat64 x)))))
           test_verifier ''license'' []))) = 9007199254740993)
   \<and> Verify (test_deps (accept (token_of (acme_claims(''aid'' \<mapsto> VFloat64 9007199254740992)))))
        test_verifier ''license'' []
      = (\<lparr>Email = ''ops@acme.test'', Organization = ''Acme'', AccountID = 9007199254740992,
          DeploymentID = ''dep-123'', StorageCapacity = 100, Plan = ''enterprise'',
          ExpiresAt = TimeUnix 4102444800\<rparr>, None)
   \<and> Verify (with_jwt_spec
        (test_prims ((token_of acme_claims)\<lparr>token_NotBefore := TimeUnix 1800000000\<rparr>) 1700000000)
        (test_deps (reject MalformedToken))) test_verifier ''license'' []
      = (LicenseInfo_zero, Some (VerificationError NotYetValid))"
proof (intro conjI)
  show "\<not> is_float64 9007199254740993" by (rule not_float64_2p53_plus_1)
next
  show "\<not> (\<exists>x. is_float64 x \<and>
         sint (AccountID (fst (Verify
           (test_deps (accept (token_of (acme_claims(''aid'' \<mapsto> VFloat64 x)))))
           test_verifier ''license'' []))) = 9007199254740993)"
  proof
    assume "\<exists>x. is_float64 x \<and>
         sint (AccountID (fst (Verify
           (test_deps (accept (token_of (acme_claims(''aid'' \<mapsto> VFloat64 x)))))
           test_verifier ''license'' []))) = 9007199254740993"
    then obtain x where f: "is_float64 x"
      and v: "sint (AccountID (fst (Verify
           (test_deps (accept (token_of (acme_claims(''aid'' \<mapsto> VFloat64 x)))))
           test_verifier ''license'' []))) = 9007199254740993"
      by blast
    show False
    proof (cases "x < 0")
      case True
      with v show False by (simp add: Verify_acme_aid LicenseInfo_zero_def)
    next
      case False
      with v have "(if - (2 ^ 63) \<le> trunc_toward_zero x \<and> trunc_toward_zero x < 2 ^ 63
          then trunc_toward_zero x else - (2 ^ 63)) = 9007199254740993"
        by (simp add: Verify_acme_aid test_deps_int64_of_float64)
      then have "trunc_toward_zero x = 9007199254740993"
        by (simp split: if_splits)
      with float64_trunc_not_2p53_plus_1 [OF f] show False by simp
    qed
  qed
next
  have "int64_of_float64
      (test_deps (accept (token_of (acme_claims(''aid'' \<mapsto> VFloat64 9007199254740992)))))
      9007199254740992 = 9007199254740992"
    using int64_of_float64_of_int [of 9007199254740992] by simp
  then show "Verify
      (test_deps (accept (token_of (acme_claims(''aid'' \<mapsto> VFloat64 9007199254740992)))))
        test_verifier ''license'' []
      = (\<lparr>Email = ''ops@acme.test'', Organization = ''Acme'', AccountID = 9007199254740992,
          DeploymentID = ''dep-123'', StorageCapacity = 100, Plan = ''enterprise'',
          ExpiresAt = TimeUnix 4102444800\<rparr>, None)"
    by (simp add: Verify_acme_aid)
next
  show "Verify (with_jwt_spec
        (test_prims ((token_of acme_claims)\<lparr>token_NotBefore := TimeUnix 1800000000\<rparr>) 1700000000)
        (test_deps (reject MalformedToken))) test_verifier ''license'' []
      = (LicenseInfo_zero, Some (VerificationError NotYetValid))"
    by (rule Verify_spec_not_yet_valid)
qed

text \<open>
  Claim C1, amended. When the library accepts the license, called with the key set of
  the verifier and with validation on, and the claims map of the token holds the
  claims of a license, an account id and a capacity that are integers among the
  values of a \<^verbatim>\<open>float64\<close> and in the range of an \<^verbatim>\<open>int64\<close>, the account id not
  negative, an organization, a plan and a deployment id, \<open>Verify\<close> succeeds and the
  fields of the \<open>LicenseInfo\<close> are these claims, the subject and the expiration of
  the token. In the scenario of the specification the fields are 42, Acme, 100,
  enterprise and dep-123.
\<close>

theorem Verify_returns_claims:
  assumes parse: "jwt_ParseString d license
             (options @ [WithKeySet (keySet lv), UseDefaultKey True, WithValidate True]) = Inr token"
    and m: "token_AsMap token = Inr claims"
    and aid: "claims accountID = Some (VFloat64 (real_of_int aid))" "0 \<le> aid" "aid < 2 ^ 63"
      "is_float64 (real_of_int aid)"
    and org: "claims organization = Some (VString org)"
    and cap: "claims capacity = Some (VFloat64 (real_of_int cap))" "- (2 ^ 63) \<le> cap" "cap < 2 ^ 63"
      "is_float64 (real_of_int cap)"
    and pl: "claims plan = Some (VString pl)"
    and did: "claims deploymentID = Some (VString did)"
  shows "Verify d lv license options =
           (\<lparr>Email = token_Subject token, Organization = org,
             AccountID = word_of_int aid, DeploymentID = did,
             StorageCapacity = word_of_int cap, Plan = pl,
             ExpiresAt = token_Expiration token\<rparr>, None)
       \<and> sint (AccountID (fst (Verify d lv license options))) = aid
       \<and> sint (StorageCapacity (fst (Verify d lv license options))) = cap"
proof -
  have a: "int64_of_float64 d (real_of_int aid) = word_of_int aid"
    using aid(2,3) by (intro int64_of_float64_of_int) auto
  have c: "int64_of_float64 d (real_of_int cap) = word_of_int cap"
    using cap(2,3) by (intro int64_of_float64_of_int) auto
  have V: "Verify d lv license options =
           (\<lparr>Email = token_Subject token, Organization = org,
             AccountID = word_of_int aid, DeploymentID = did,
             StorageCapacity = word_of_int cap, Plan = pl,
             ExpiresAt = token_Expiration token\<rparr>, None)"
    using aid(1,2) org cap(1) pl did
    by (simp add: Verify_parsed [OF parse] toLicenseInfo_claims [OF m] a c)
  have "sint (word_of_int aid :: 64 word) = aid"
    using aid(2,3) by (intro sint_int64) auto
  moreover have "sint (word_of_int cap :: 64 word) = cap"
    using cap(2,3) by (intro sint_int64) auto
  ultimately show ?thesis by (simp add: V)
qed

theorem Verify_returns_claims_witness:
  "Verify (test_deps (accept (token_of acme_claims))) test_verifier ''license'' []
   = (\<lparr>Email = ''ops@acme.test'', Organization = ''Acme'', AccountID = 42,
       DeploymentID = ''dep-123'', StorageCapacity = 100, Plan = ''enterprise'',
       ExpiresAt = TimeUnix 4102444800\<rparr>, None)"
proof -
  note names = accountID_def organization_def capacity_def plan_def deploymentID_def
  have fa: "is_float64 (real_of_int 42)" by (rule is_float64_of_small_int) simp
  have fc: "is_float64 (real_of_int 100)" by (rule is_float64_of_small_int) simp
  have "Verify (test_deps (accept (token_of acme_claims))) test_verifier ''license'' [] =
      (\<lparr>Email = token_Subject (token_of acme_claims), Organization = ''Acme'',
        AccountID = word_of_int 42, DeploymentID = ''dep-123'',
        StorageCapacity = word_of_int 100, Plan = ''enterprise'',
        ExpiresAt = token_Expiration (token_of acme_claims)\<rparr>, None)"
    using Verify_returns_claims
      [where token = "token_of acme_claims" and claims = acme_claims and aid = 42
        and cap = 100 and org = "''Acme''" and pl = "''enterprise''" and did = "''dep-123''",
        OF test_deps_accept token_of_AsMap] fa fc
    by (simp add: names acme_claims_def)
  then show ?thesis by (simp add: token_of_def)
qed

subsection \<open>Numbers with a fraction\<close>

text \<open>
  Claim C9. On a token whose claims \<open>aid\<close> and \<open>cap\<close> are numbers (values of a
  \<^verbatim>\<open>float64\<close>, the account id not negative) and whose organization and plan are
  strings, the extraction succeeds whether or not the numbers are integers; when
  \<open>aid\<close> is not an integer the \<open>AccountID\<close> is \<open>aid\<close> truncated towards zero, and
  when \<open>cap\<close> is not an integer the \<open>StorageCapacity\<close> is \<open>cap\<close> truncated towards
  zero. In the witness \<open>aid\<close> is the \<^verbatim>\<open>float64\<close> nearest to 42.9 and \<open>cap\<close> is -3.5.
\<close>

theorem toLicenseInfo_fractional:
  assumes m: "token_AsMap token = Inr claims"
    and aid: "claims accountID = Some (VFloat64 a)" "is_float64 a" "0 \<le> a"
    and org: "claims organization = Some (VString org)"
    and cap: "claims capacity = Some (VFloat64 c)" "is_float64 c"
    and pl: "claims plan = Some (VString pl)"
  shows "snd (toLicenseInfo d token) = None
       \<and> (a \<notin> \<int> \<longrightarrow>
            sint (AccountID (fst (toLicenseInfo d token))) = trunc_toward_zero a)
       \<and> (c \<notin> \<int> \<longrightarrow>
            sint (StorageCapacity (fst (toLicenseInfo d token))) = trunc_toward_zero c)"
proof -
  have L: "toLicenseInfo d token =
      (\<lparr>Email = token_Subject token, Organization = org,
        AccountID = int64_of_float64 d a,
        DeploymentID = fst (as_string (claims deploymentID)),
        StorageCapacity = int64_of_float64 d c, Plan = pl,
        ExpiresAt = token_Expiration token\<rparr>, None)"
    using aid(1,3) org cap(1) pl by (simp add: toLicenseInfo_claims [OF m])
  show ?thesis
    using int64_of_float64_fraction(2) [OF aid(2)] int64_of_float64_fraction(2) [OF cap(2)]
    by (simp add: L)
qed

theorem toLicenseInfo_fractional_witness:
  "snd (toLicenseInfo (test_deps (accept (token_of acme_claims)))
     (token_of (acme_claims(''aid'' \<mapsto> VFloat64 (6037638250443571 / 140737488355328),
        ''cap'' \<mapsto> VFloat64 (- 7 / 2))))) = None
   \<and> sint (AccountID (fst (toLicenseInfo (test_deps (accept (token_of acme_claims)))
     (token_of (acme_claims(''aid'' \<mapsto> VFloat64 (6037638250443571 / 140737488355328),
        ''cap'' \<mapsto> VFloat64 (- 7 / 2))))))) = 42
   \<and> sint (StorageCapacity (fst (toLicenseInfo (test_deps (accept (token_of acme_claims)))
     (token_of (acme_claims(''aid'' \<mapsto> VFloat64 (6037638250443571 / 140737488355328),
        ''cap'' \<mapsto> VFloat64 (- 7 / 2))))))) = - 3"
proof -
  note names = accountID_def organization_def capacity_def plan_def deploymentID_def
  let ?a = "6037638250443571 / 140737488355328 :: real"
  let ?c = "- 7 / 2 :: real"
  let ?m = "acme_claims(''aid'' \<mapsto> VFloat64 ?a, ''cap'' \<mapsto> VFloat64 ?c)"
  have fa: "is_float64 ?a"
    unfolding is_float64_def
    by (rule exI [of _ 6037638250443571], rule exI [of _ 47]) simp
  have fc: "is_float64 ?c"
    unfolding is_float64_def
    by (rule exI [of _ "- 7"], rule exI [of _ 1]) simp
  have na: "?a \<notin> \<int>"
  proof
    assume "?a \<in> \<int>"
    then have "real_of_int \<lfloor>?a\<rfloor> = ?a" by (rule of_int_floor)
    then show False by simp
  qed
  have nc: "?c \<notin> \<int>"
  proof
    assume "?c \<in> \<int>"
    then have "real_of_int \<lfloor>?c\<rfloor> = ?c" by (rule of_int_floor)
    then show False by simp
  qed
  have ta: "trunc_toward_zero ?a = 42" by (simp add: trunc_toward_zero_def)
  have tc: "trunc_toward_zero ?c = - 3" by (simp add: trunc_toward_zero_def)
  have c1: "?m accountID = Some (VFloat64 ?a)" by (simp add: names)
  have c2: "?m organization = Some (VString ''Acme'')" by (simp add: names acme_claims_def)
  have c3: "?m capacity = Some (VFloat64 ?c)" by (simp add: names)
  have c4: "?m plan = Some (VString ''enterprise'')" by (simp add: names acme_claims_def)
  have nn: "0 \<le> ?a" by simp
  show ?thesis
    using toLicenseInfo_fractional
      [where token = "token_of ?m" and claims = ?m
        and d = "test_deps (accept (token_of acme_claims))",
        OF token_of_AsMap c1 fa nn c2 c3 fc c4] na nc ta tc
    by presburger
qed

subsection \<open>The key loader\<close>

text \<open>
  Claim C6. \<open>parseECPublicKeyFromPEM\<close> on any blob: when \<^verbatim>\<open>pem.Decode\<close> finds no
  block the result is \<open>KeyFormatError\<close>; otherwise the bytes of the block are parsed as
  a PKIX public key first and, when that fails, as a certificate whose public key is
  taken; when both fail the result is the error of the certificate parser; and a key
  obtained either way is returned when it is an elliptic-curve key and gives
  \<open>KeyTypeError\<close> when it is not.
\<close>

theorem parseECPublicKeyFromPEM_contract:
  "(pem_Decode d key = None \<longrightarrow> parseECPublicKeyFromPEM d key = Inl KeyFormatError)
   \<and> (\<forall>block. pem_Decode d key = Some block \<longrightarrow>
        (\<forall>k. x509_ParsePKIXPublicKey d (block_Bytes block) = Inr k \<longrightarrow>
             (\<forall>pk. k = ECDSAKey pk \<longrightarrow> parseECPublicKeyFromPEM d key = Inr pk) \<and>
             ((\<forall>pk. k \<noteq> ECDSAKey pk) \<longrightarrow> parseECPublicKeyFromPEM d key = Inl KeyTypeError))
      \<and> (\<forall>e. x509_ParsePKIXPublicKey d (block_Bytes block) = Inl e \<longrightarrow>
             (\<forall>cert. x509_ParseCertificate d (block_Bytes block) = Inr cert \<longrightarrow>
                (\<forall>pk. cert_PublicKey cert = ECDSAKey pk \<longrightarrow>
                      parseECPublicKeyFromPEM d key = Inr pk) \<and>
                ((\<forall>pk. cert_PublicKey cert \<noteq> ECDSAKey pk) \<longrightarrow>
                      parseECPublicKeyFromPEM d key = Inl KeyTypeError))
           \<and> (\<forall>e'. x509_ParseCertificate d (block_Bytes block) = Inl e' \<longrightarrow>
                parseECPublicKeyFromPEM d key = Inl (X509Error e'))))"
  by (auto simp: parseECPublicKeyFromPEM_def as_ecdsa_PublicKey_None)

theorem parseECPublicKeyFromPEM_contract_witness:
  "parseECPublicKeyFromPEM (test_deps (accept (token_of acme_claims))) ''not-a-key''
     = Inl KeyFormatError
   \<and> parseECPublicKeyFromPEM (test_deps (accept (token_of acme_claims))) ''pkix''
     = Inr test_key
   \<and> parseECPublicKeyFromPEM (test_deps (accept (token_of acme_claims))) ''rsa''
     = Inl KeyTypeError
   \<and> parseECPublicKeyFromPEM (test_deps (accept (token_of acme_claims))) ''cert''
     = Inr test_key
   \<and> parseECPublicKeyFromPEM (test_deps (accept (token_of acme_claims))) ''junk''
     = Inl (X509Error ''x509: malformed certificate'')"
proof -
  let ?d = "test_deps (accept (token_of acme_claims))"
  have 1: "parseECPublicKeyFromPEM ?d ''not-a-key'' = Inl KeyFormatError"
    using parseECPublicKeyFromPEM_contract [of ?d "''not-a-key''"]
    by (simp add: test_deps_def)
  have 2: "parseECPublicKeyFromPEM ?d ''pkix'' = Inr test_key"
    using parseECPublicKeyFromPEM_contract [of ?d "''pkix''"]
    by (simp add: test_deps_def)
  have 3: "parseECPublicKeyFromPEM ?d ''rsa'' = Inl KeyTypeError"
    using parseECPublicKeyFromPEM_contract [of ?d "''rsa''"]
    by (simp add: test_deps_def)
  have 4: "parseECPublicKeyFromPEM ?d ''cert'' = Inr test_key"
    using parseECPublicKeyFromPEM_contract [of ?d "''cert''"]
    by (simp add: test_deps_def)
  have 5: "parseECPublicKeyFromPEM ?d ''junk'' = Inl (X509Error ''x509: malformed certificate'')"
    using parseECPublicKeyFromPEM_contract [of ?d "''junk''"]
    by (simp add: test_deps_def)
  from 1 2 3 4 5 show ?thesis by blast
qed

subsection \<open>The key set of a verifier\<close>

text \<open>
  Claim C7. When \<open>NewLicenseVerifier\<close> succeeds, the key set of the verifier is the
  one key that \<^verbatim>\<open>jwk.New\<close> made of the parsed public key, with the algorithm
  attribute set to ES384 whatever \<^verbatim>\<open>jwk.New\<close> had put there. After a call of
  \<open>Verify\<close> the verifier is as it was but for what the library has done to the key
  set it was handed; so with a library that writes to no key set, after any sequence
  of calls of \<open>Verify\<close> the verifier is the one constructed and its key set is still
  that one key with ES384. In the concrete case \<^verbatim>\<open>jwk.New\<close> returns a key that
  says ES256.
\<close>

theorem NewLicenseVerifier_keySet:
  assumes "NewLicenseVerifier d pem = Inr lv"
  shows "(\<exists>pbKey key. parseECPublicKeyFromPEM d pem = Inr pbKey \<and>
           jwk_New d pbKey = Inr key \<and>
           keySet lv = [key\<lparr>key_Algorithm := Some ES384\<rparr>] \<and>
           length (keySet lv) = 1 \<and>
           (\<forall>k \<in> set (keySet lv). key_Algorithm k = Some ES384))
       \<and> snd (Verify_st d w lv license options) =
           lv\<lparr>keySet := w license
             (options @ [WithKeySet (keySet lv), UseDefaultKey True, WithValidate True])
             (keySet lv)\<rparr>
       \<and> ((\<forall>s os ks. w s os ks = ks) \<longrightarrow>
            Verify_calls d w lv calls = lv \<and>
            (\<exists>key. keySet (Verify_calls d w lv calls) = [key] \<and>
                   key_Algorithm key = Some ES384))"
proof -
  have 1: "\<exists>pbKey key. parseECPublicKeyFromPEM d pem = Inr pbKey \<and>
           jwk_New d pbKey = Inr key \<and>
           keySet lv = [key\<lparr>key_Algorithm := Some ES384\<rparr>] \<and>
           length (keySet lv) = 1 \<and>
           (\<forall>k \<in> set (keySet lv). key_Algorithm k = Some ES384)"
    using assms
    by (auto simp: NewLicenseVerifier_def keyset_Add_def jwk_NewSet_def
        key_Set_AlgorithmKey_def split: sum.splits)
  have 2: "snd (Verify_st d w lv license options) =
           lv\<lparr>keySet := w license
             (options @ [WithKeySet (keySet lv), UseDefaultKey True, WithValidate True])
             (keySet lv)\<rparr>"
    by (simp add: Verify_st_def)
  have 3: "Verify_calls d w lv calls = lv \<and>
      (\<exists>key. keySet (Verify_calls d w lv calls) = [key] \<and> key_Algorithm key = Some ES384)"
    if "\<forall>s os ks. w s os ks = ks"
    using 1 by (auto simp: Verify_calls_read_only [OF that])
  from 1 2 3 show ?thesis by blast
qed

theorem NewLicenseVerifier_keySet_witness:
  "NewLicenseVerifier (test_deps (accept (token_of acme_claims))) pemBytes_prod = Inr test_verifier
   \<and> keySet test_verifier =
       [\<lparr>key_Raw = test_key, key_Algorithm = Some ES384, key_KeyID = None\<rparr>]
   \<and> Verify_calls (test_deps (accept (token_of acme_claims))) (\<lambda>s os ks. ks) test_verifier
       [(''license'', []), (''tampered'', [SkipExpiryCheck True])] = test_verifier"
proof -
  let ?d = "test_deps (accept (token_of acme_claims))"
  have n: "NewLicenseVerifier ?d pemBytes_prod = Inr test_verifier"
    by (simp add: NewLicenseVerifier_def parseECPublicKeyFromPEM_def test_deps_def
        pemBytes_prod_def keyset_Add_def jwk_NewSet_def key_Set_AlgorithmKey_def
        test_verifier_def)
  have r: "\<forall>s os ks. (\<lambda>s os ks. ks) s os (ks :: jwk_Set) = ks" by simp
  have "jwk_New ?d test_key = Inr \<lparr>key_Raw = test_key, key_Algorithm = Some ES256, key_KeyID = None\<rparr>"
    by (simp add: test_deps_def)
  with NewLicenseVerifier_keySet
    [OF n, where w = "\<lambda>s os ks. ks"
      and calls = "[(''license'', []), (''tampered'', [SkipExpiryCheck True])]"] n r
  show ?thesis
    by (auto simp: test_verifier_def)
qed

subsection \<open>No result from a rejected license\<close>

text \<open>
  Claim C8. When \<^verbatim>\<open>jwt.ParseString\<close>, called with the key set of the verifier and with
  validation on, fails with an error, \<open>Verify\<close> returns that error wrapped together with
  the zero \<open>LicenseInfo\<close>. Whenever \<open>Verify\<close> returns a \<open>LicenseInfo\<close> that is not the
  zero value, or no error, the library has accepted the license, and the result is the
  extraction from the token it returned, which has succeeded. Whenever \<open>Verify\<close> returns
  an error, the \<open>LicenseInfo\<close> beside it is the zero value.
\<close>

theorem Verify_fail_fast:
  "(\<forall>e. jwt_ParseString d license
          (options @ [WithKeySet (keySet lv), UseDefaultKey True, WithValidate True]) = Inl e \<longrightarrow>
        Verify d lv license options = (LicenseInfo_zero, Some (VerificationError e)))
   \<and> (fst (Verify d lv license options) \<noteq> LicenseInfo_zero \<or>
      snd (Verify d lv license options) = None \<longrightarrow>
        (\<exists>token. jwt_ParseString d license
            (options @ [WithKeySet (keySet lv), UseDefaultKey True, WithValidate True])
              = Inr token \<and>
          Verify d lv license options = toLicenseInfo d token \<and>
          snd (toLicenseInfo d token) = None))
   \<and> (snd (Verify d lv license options) \<noteq> None \<longrightarrow>
        fst (Verify d lv license options) = LicenseInfo_zero)"
proof (intro conjI allI impI)
  let ?p = "jwt_ParseString d license
      (options @ [WithKeySet (keySet lv), UseDefaultKey True, WithValidate True])"
  fix e assume "?p = Inl e"
  then show "Verify d lv license options = (LicenseInfo_zero, Some (VerificationError e))"
    by (rule Verify_rejected)
next
  let ?p = "jwt_ParseString d license
      (options @ [WithKeySet (keySet lv), UseDefaultKey True, WithValidate True])"
  assume a: "fst (Verify d lv license options) \<noteq> LicenseInfo_zero \<or>
      snd (Verify d lv license options) = None"
  show "\<exists>token. ?p = Inr token \<and> Verify d lv license options = toLicenseInfo d token \<and>
          snd (toLicenseInfo d token) = None"
  proof (cases ?p)
    case (Inl e)
    with a show ?thesis by (simp add: Verify_rejected)
  next
    case (Inr token)
    with a toLicenseInfo_error_zero [of d token] show ?thesis
      by (cases "snd (toLicenseInfo d token)") (auto simp: Verify_parsed)
  qed
next
  let ?p = "jwt_ParseString d license
      (options @ [WithKeySet (keySet lv), UseDefaultKey True, WithValidate True])"
  assume a: "snd (Verify d lv license options) \<noteq> None"
  show "fst (Verify d lv license options) = LicenseInfo_zero"
  proof (cases ?p)
    case (Inl e)
    then show ?thesis by (simp add: Verify_rejected)
  next
    case (Inr token)
    with a toLicenseInfo_error_zero [of d token] show ?thesis
      by (simp add: Verify_parsed)
  qed
qed

theorem Verify_fail_fast_witness:
  "Verify (test_deps (reject InvalidSignature)) test_verifier ''tampered'' []
     = (LicenseInfo_zero, Some (VerificationError InvalidSignature))
   \<and> (\<exists>token. jwt_ParseString (test_deps (accept (token_of acme_claims))) ''license''
          ([] @ [WithKeySet (keySet test_verifier), UseDefaultKey True, WithValidate True])
            = Inr token \<and>
        Verify (test_deps (accept (token_of acme_claims))) test_verifier ''license'' []
          = toLicenseInfo (test_deps (accept (token_of acme_claims))) token \<and>
        snd (toLicenseInfo (test_deps (accept (token_of acme_claims))) token) = None)
   \<and> fst (Verify (test_deps (accept (token_of (acme_claims(''org'' := None)))))
        test_verifier ''license'' []) = LicenseInfo_zero"
proof -
  have 1: "Verify (test_deps (reject InvalidSignature)) test_verifier ''tampered'' []
     = (LicenseInfo_zero, Some (VerificationError InvalidSignature))"
    using Verify_fail_fast
      [of "test_deps (reject InvalidSignature)" "''tampered''" "[]" test_verifier]
      test_deps_reject
    by blast
  have "snd (Verify (test_deps (accept (token_of acme_claims))) test_verifier ''license'' [])
      = None"
    by (simp add: Verify_acme)
  then have 2: "\<exists>token. jwt_ParseString (test_deps (accept (token_of acme_claims))) ''license''
          ([] @ [WithKeySet (keySet test_verifier), UseDefaultKey True, WithValidate True])
            = Inr token \<and>
        Verify (test_deps (accept (token_of acme_claims))) test_verifier ''license'' []
          = toLicenseInfo (test_deps (accept (token_of acme_claims))) token \<and>
        snd (toLicenseInfo (test_deps (accept (token_of acme_claims))) token) = None"
    using Verify_fail_fast
      [of "test_deps (accept (token_of acme_claims))" "''license''" "[]" test_verifier]
    by blast
  have "snd (Verify (test_deps (accept (token_of (acme_claims(''org'' := None)))))
        test_verifier ''license'' []) \<noteq> None"
    by (simp add: Verify_acme_no_org)
  then have 3: "fst (Verify (test_deps (accept (token_of (acme_claims(''org'' := None)))))
        test_verifier ''license'' []) = LicenseInfo_zero"
    using Verify_fail_fast
      [of "test_deps (accept (token_of (acme_claims(''org'' := None))))" "''license''" "[]"
        test_verifier]
    by blast
  from 1 2 3 show ?thesis by blast
qed

subsection \<open>The deployment id of a cluster\<close>

text \<open>
  Claim C5. \<open>VerifyClusterLicense\<close> returns the error of \<open>NewLicenseVerifier\<close> as it
  is, else the error of \<open>Verify\<close> as it is, else \<open>DeploymentMismatch\<close> when the
  \<open>DeploymentID\<close> extracted is not the string expected, and no error when it is that
  string. In the witness \<open>dep-999\<close> and \<open>DEP-123\<close> do not match \<open>dep-123\<close>.
\<close>

theorem VerifyClusterLicense_deployment:
  "(\<forall>e. NewLicenseVerifier d (pemBytes d) = Inl e \<longrightarrow>
        VerifyClusterLicense d lic depID options = Some e)
   \<and> (\<forall>lv. NewLicenseVerifier d (pemBytes d) = Inr lv \<longrightarrow>
        (\<forall>licInfo e. Verify d lv lic options = (licInfo, Some e) \<longrightarrow>
           VerifyClusterLicense d lic depID options = Some e)
      \<and> (\<forall>licInfo. Verify d lv lic options = (licInfo, None) \<longrightarrow>
           (DeploymentID licInfo \<noteq> depID \<longrightarrow>
              VerifyClusterLicense d lic depID options = Some DeploymentMismatch)
         \<and> (DeploymentID licInfo = depID \<longrightarrow>
              VerifyClusterLicense d lic depID options = None)))"
  by (simp add: VerifyClusterLicense_def)

theorem VerifyClusterLicense_deployment_witness:
  "VerifyClusterLicense (test_deps (accept (token_of acme_claims))) ''license'' ''dep-999'' []
     = Some DeploymentMismatch
   \<and> VerifyClusterLicense (test_deps (accept (token_of acme_claims))) ''license'' ''dep-123'' []
     = None
   \<and> VerifyClusterLicense (test_deps (accept (token_of acme_claims))) ''license'' ''DEP-123'' []
     = Some DeploymentMismatch
   \<and> VerifyClusterLicense (test_deps (reject Expired)) ''license'' ''dep-123'' []
     = Some (VerificationError Expired)
   \<and> VerifyClusterLicense
       ((test_deps (accept (token_of acme_claims)))\<lparr>pem_Decode := \<lambda>b. None\<rparr>)
       ''license'' ''dep-123'' []
     = Some (ParsePublicKeyFailed KeyFormatError)"
proof -
  let ?d = "test_deps (accept (token_of acme_claims))"
  let ?li = "\<lparr>Email = ''ops@acme.test'', Organization = ''Acme'', AccountID = 42,
       DeploymentID = ''dep-123'', StorageCapacity = 100, Plan = ''enterprise'',
       ExpiresAt = TimeUnix 4102444800\<rparr>"
  have V: "Verify ?d test_verifier ''license'' [] = (?li, None)" by (rule Verify_acme)
  have 1: "VerifyClusterLicense ?d ''license'' ''dep-999'' [] = Some DeploymentMismatch"
    using VerifyClusterLicense_deployment [of ?d "''license''" "''dep-999''" "[]"]
      NewLicenseVerifier_test [of "accept (token_of acme_claims)"] V
    by simp
  have 2: "VerifyClusterLicense ?d ''license'' ''dep-123'' [] = None"
    using VerifyClusterLicense_deployment [of ?d "''license''" "''dep-123''" "[]"]
      NewLicenseVerifier_test [of "accept (token_of acme_claims)"] V
    by simp
  have 3: "VerifyClusterLicense ?d ''license'' ''DEP-123'' [] = Some DeploymentMismatch"
    using VerifyClusterLicense_deployment [of ?d "''license''" "''DEP-123''" "[]"]
      NewLicenseVerifier_test [of "accept (token_of acme_claims)"] V
    by simp
  have R: "Verify (test_deps (reject Expired)) test_verifier ''license'' []
      = (LicenseInfo_zero, Some (VerificationError Expired))"
    by (simp add: Verify_rejected [OF test_deps_reject])
  have 4: "VerifyClusterLicense (test_deps (reject Expired)) ''license'' ''dep-123'' []
      = Some (VerificationError Expired)"
    using VerifyClusterLicense_deployment
      [of "test_deps (reject Expired)" "''license''" "''dep-123''" "[]"]
      NewLicenseVerifier_test [of "reject Expired"] R
    by simp
  let ?n = "?d\<lparr>pem_Decode := \<lambda>b. None\<rparr>"
  have N: "NewLicenseVerifier ?n (pemBytes ?n) = Inl (ParsePublicKeyFailed KeyFormatError)"
    by (simp add: NewLicenseVerifier_def parseECPublicKeyFromPEM_def)
  have 5: "VerifyClusterLicense ?n ''license'' ''dep-123'' []
      = Some (ParsePublicKeyFailed KeyFormatError)"
    using VerifyClusterLicense_deployment [of ?n "''license''" "''dep-123''" "[]"] N
    by simp
  from 1 2 3 4 5 show ?thesis by blast
qed

subsection \<open>An expired license\<close>

text \<open>
  Claim C4, against the token verifier of the specification. With no option of the
  caller, a license whose expiration is strictly before the current time is never
  verified: \<open>Verify\<close> returns an error and the zero \<open>LicenseInfo\<close>, and the error is
  \<open>Expired\<close> when the signature verifies with the key of the verifier. The signature is
  enforced as well: a license whose signature does not verify gives
  \<open>InvalidSignature\<close>.
\<close>

theorem Verify_default_expiry:
  "(decode_compact p license = Some m \<and>
    token_Expiration (jws_Payload m) = TimeUnix e \<and> e < time_Now p \<longrightarrow>
      fst (Verify (with_jwt_spec p d) lv license []) = LicenseInfo_zero \<and>
      snd (Verify (with_jwt_spec p d) lv license []) \<noteq> None \<and>
      (keySet lv = [k] \<and> key_Algorithm k = Some (jws_Algorithm m) \<and>
       ecdsa_Verify p (key_Raw k) (jws_Algorithm m) (jws_SigningInput m) (jws_Signature m) \<longrightarrow>
         Verify (with_jwt_spec p d) lv license []
           = (LicenseInfo_zero, Some (VerificationError Expired))))
   \<and> (decode_compact p license = Some m \<and>
      keySet lv = [k] \<and> key_Algorithm k = Some (jws_Algorithm m) \<and>
      \<not> ecdsa_Verify p (key_Raw k) (jws_Algorithm m) (jws_SigningInput m) (jws_Signature m) \<longrightarrow>
        Verify (with_jwt_spec p d) lv license []
          = (LicenseInfo_zero, Some (VerificationError InvalidSignature)))"
proof -
  let ?V = "Verify (with_jwt_spec p d) lv license []"
  let ?sig = "ecdsa_Verify p (key_Raw k) (jws_Algorithm m) (jws_SigningInput m) (jws_Signature m)"
  have a: "fst ?V = LicenseInfo_zero \<and> snd ?V \<noteq> None"
    if h: "decode_compact p license = Some m"
      "token_Expiration (jws_Payload m) = TimeUnix e" "e < time_Now p"
  proof -
    obtain err where "jwt_ParseString_spec p license
        [WithKeySet (keySet lv), UseDefaultKey True, WithValidate True] = Inl err"
      using jwt_ParseString_spec_expired [OF h] by blast
    then show ?thesis by (simp add: Verify_spec_rejected)
  qed
  have b: "?V = (LicenseInfo_zero, Some (VerificationError Expired))"
    if "decode_compact p license = Some m"
      and "token_Expiration (jws_Payload m) = TimeUnix e" and "e < time_Now p"
      and "keySet lv = [k]" and "key_Algorithm k = Some (jws_Algorithm m)" and ?sig
    using that by (simp add: Verify_spec_rejected jwt_ParseString_spec_default)
  have c: "?V = (LicenseInfo_zero, Some (VerificationError InvalidSignature))"
    if "decode_compact p license = Some m"
      and "keySet lv = [k]" and "key_Algorithm k = Some (jws_Algorithm m)" and "\<not> ?sig"
    using that by (simp add: Verify_spec_rejected jwt_ParseString_spec_default)
  from a b c show ?thesis by blast
qed

theorem Verify_default_expiry_witness:
  "Verify (with_jwt_spec (test_prims (token_of acme_claims) 4102444801)
        (test_deps (reject MalformedToken))) test_verifier ''license'' []
     = (LicenseInfo_zero, Some (VerificationError Expired))
   \<and> Verify (with_jwt_spec
        ((test_prims (token_of acme_claims) 1700000000)\<lparr>ecdsa_Verify := \<lambda>k a i s. False\<rparr>)
        (test_deps (reject MalformedToken))) test_verifier ''license'' []
     = (LicenseInfo_zero, Some (VerificationError InvalidSignature))"
proof -
  let ?d = "test_deps (reject MalformedToken)"
  let ?p = "test_prims (token_of acme_claims) 4102444801"
  let ?q = "(test_prims (token_of acme_claims) 1700000000)\<lparr>ecdsa_Verify := \<lambda>k a i s. False\<rparr>"
  let ?m = "\<lparr>jws_Algorithm = ES384, jws_SigningInput = ''license'',
             jws_Signature = ''good'', jws_Payload = token_of acme_claims\<rparr>"
  let ?k = "\<lparr>key_Raw = test_key, key_Algorithm = Some ES384, key_KeyID = None\<rparr>"
  have 1: "Verify (with_jwt_spec ?p ?d) test_verifier ''license'' []
     = (LicenseInfo_zero, Some (VerificationError Expired))"
    using Verify_default_expiry
      [where p = ?p and license = "''license''" and m = ?m and e = 4102444800 and k = ?k
        and lv = test_verifier and d = ?d]
    by (simp add: test_prims_def token_of_def test_verifier_def)
  have 2: "Verify (with_jwt_spec ?q ?d) test_verifier ''license'' []
     = (LicenseInfo_zero, Some (VerificationError InvalidSignature))"
    using Verify_default_expiry
      [where p = ?q and license = "''license''" and m = ?m and k = ?k
        and lv = test_verifier and d = ?d]
    by (simp add: test_prims_def test_verifier_def)
  from 1 2 show ?thesis by blast
qed

end
